theory Spec2Isabelle
  imports
    Complex_Main
    "HOL-Library.Word"
    "HOL-Library.List_Lexorder"
    "HOL-Library.Sublist"
    "HOL-Library.AList"
begin

section \<open>Values of the JavaScript runtime\<close>

text \<open>
  The program is \<^verbatim>\<open>src/backend/ragService.js\<close>. A JavaScript string is a sequence of
  UTF-16 code units: \<^verbatim>\<open>length\<close> counts them and the default \<^verbatim>\<open>sort\<close> compares them,
  so a string is a list of 16-bit words. ASCII text is written through \<open>ascii\<close>.
\<close>

type_synonym code_unit = "16 word"
type_synonym jsstring = "code_unit list"

definition ascii :: "string \<Rightarrow> jsstring" where
  "ascii s = map of_char s"

text \<open>
  Numbers are IEEE-754 binary64 values: \<open>NaN\<close>, the two infinities, and the finite
  values, each given by the rational it stands for. There is one zero: the program
  adds, subtracts, compares with \<^verbatim>\<open>>=\<close>, takes absolute values and prints, and none
  of these tells \<open>-0\<close> from \<open>0\<close>.

  \<open>round64\<close> is the rounding that every arithmetic operation ends with: to the
  nearest value of the format, to the one with the even significand when two are
  equally near, and to an infinity from \<open>2^1024\<close> on. The unit in the last place of
  \<open>x\<close> is \<open>2^(e - 52)\<close> for the exponent \<open>e\<close> of \<open>x\<close>, which is at least \<open>-1022\<close>.
\<close>

datatype jsnum = NaN | PInf | NInf | Num rat

text \<open>The number of binary digits of a natural number.\<close>

fun bits :: "nat \<Rightarrow> nat" where
  "bits n = (if n = 0 then 0 else Suc (bits (n div 2)))"

declare bits.simps [simp del]

definition two_pow :: "int \<Rightarrow> rat" where
  "two_pow e = (if 0 \<le> e then 2 ^ nat e else 1 / 2 ^ nat (- e))"

text \<open>The exponent of a positive rational \<open>a\<close>: the \<open>e\<close> with \<open>2^e \<le> a < 2^(e + 1)\<close>.\<close>

definition ilog2 :: "rat \<Rightarrow> int" where
  "ilog2 a =
     (if 1 \<le> a then int (bits (nat \<lfloor>a\<rfloor>)) - 1
      else - int (bits (nat (\<lceil>1 / a\<rceil> - 1))))"

definition round_half_even :: "rat \<Rightarrow> int" where
  "round_half_even q =
     (let f = \<lfloor>q\<rfloor>; d = q - of_int f
      in if d < 1 / 2 then f else if 1 / 2 < d then f + 1 else if even f then f else f + 1)"

definition round64 :: "rat \<Rightarrow> jsnum" where
  "round64 x =
     (if x = 0 then Num 0
      else let u = two_pow (max (ilog2 \<bar>x\<bar>) (- 1022) - 52);
               r = of_int (round_half_even (x / u)) * u
           in if 2 ^ 1024 \<le> r then PInf else if r \<le> - (2 ^ 1024) then NInf else Num r)"

text \<open>\<^verbatim>\<open>a + b\<close> and \<^verbatim>\<open>a - b\<close> on numbers.\<close>

fun jadd :: "jsnum \<Rightarrow> jsnum \<Rightarrow> jsnum" where
  "jadd NaN b = NaN"
| "jadd a NaN = NaN"
| "jadd PInf NInf = NaN"
| "jadd NInf PInf = NaN"
| "jadd PInf b = PInf"
| "jadd a PInf = PInf"
| "jadd NInf b = NInf"
| "jadd a NInf = NInf"
| "jadd (Num a) (Num b) = round64 (a + b)"

fun jsub :: "jsnum \<Rightarrow> jsnum \<Rightarrow> jsnum" where
  "jsub NaN b = NaN"
| "jsub a NaN = NaN"
| "jsub PInf PInf = NaN"
| "jsub NInf NInf = NaN"
| "jsub PInf b = PInf"
| "jsub a NInf = PInf"
| "jsub NInf b = NInf"
| "jsub a PInf = NInf"
| "jsub (Num a) (Num b) = round64 (a - b)"

fun isNaN :: "jsnum \<Rightarrow> bool" where
  "isNaN NaN = True"
| "isNaN PInf = False"
| "isNaN NInf = False"
| "isNaN (Num _) = False"

text \<open>\<^verbatim>\<open>x >= 0\<close> and \<^verbatim>\<open>Math.abs(x)\<close>.\<close>

fun ge_zero :: "jsnum \<Rightarrow> bool" where
  "ge_zero (Num a) = (0 \<le> a)"
| "ge_zero PInf = True"
| "ge_zero NInf = False"
| "ge_zero NaN = False"

fun Math_abs :: "jsnum \<Rightarrow> jsnum" where
  "Math_abs (Num a) = Num \<bar>a\<bar>"
| "Math_abs PInf = PInf"
| "Math_abs NInf = PInf"
| "Math_abs NaN = NaN"

text \<open>
  \<^verbatim>\<open>v || 0\<close> for a property read \<open>v\<close> that is a number or \<^verbatim>\<open>undefined\<close> (\<open>None\<close>):
  \<^verbatim>\<open>undefined\<close>, \<open>NaN\<close> and \<open>0\<close> are falsy.
\<close>

fun or_zero :: "jsnum option \<Rightarrow> jsnum" where
  "or_zero None = Num 0"
| "or_zero (Some NaN) = Num 0"
| "or_zero (Some PInf) = PInf"
| "or_zero (Some NInf) = NInf"
| "or_zero (Some (Num a)) = (if a = 0 then Num 0 else Num a)"

text \<open>
  The values that reach the program: metadata fields read back from the vector index
  and column values read from the database. They are primitive values or plain
  objects; a date is carried by its printed form.
\<close>

datatype jsval =
    JUndefined
  | JNull
  | JBool bool
  | JNumber jsnum
  | JString jsstring
  | JObject "(jsstring \<times> jsval) list"

text \<open>
  What the engine and its locale decide is a parameter of the model: the parsing of a
  string as a number, the printing of a number, and the rendering
  \<^verbatim>\<open>new Date(v).toLocaleString("default", { month: "long", year: "numeric" })\<close>
  of a month label, which depends on the default locale and the time zone.
\<close>

record runtime =
  StringToNumber :: "jsstring \<Rightarrow> jsnum"
  NumberToString :: "jsnum \<Rightarrow> jsstring"
  monthLabel :: "jsval \<Rightarrow> jsstring"

text \<open>\<^verbatim>\<open>Number(v)\<close>: the language's numeric coercion.\<close>

fun Number :: "runtime \<Rightarrow> jsval \<Rightarrow> jsnum" where
  "Number rt JUndefined = NaN"
| "Number rt JNull = Num 0"
| "Number rt (JBool b) = Num (if b then 1 else 0)"
| "Number rt (JNumber n) = n"
| "Number rt (JString s) = StringToNumber rt s"
| "Number rt (JObject ps) = NaN"

text \<open>The string conversion of a template literal \<^verbatim>\<open>${v}\<close>.\<close>

fun ToString :: "runtime \<Rightarrow> jsval \<Rightarrow> jsstring" where
  "ToString rt JUndefined = ascii ''undefined''"
| "ToString rt JNull = ascii ''null''"
| "ToString rt (JBool b) = (if b then ascii ''true'' else ascii ''false'')"
| "ToString rt (JNumber n) = NumberToString rt n"
| "ToString rt (JString s) = s"
| "ToString rt (JObject ps) = ascii ''[object Object]''"

text \<open>The decimal digits of a natural number.\<close>

fun digits :: "nat \<Rightarrow> jsstring" where
  "digits n =
     (if n < 10 then [of_nat (48 + n)]
      else digits (n div 10) @ [of_nat (48 + n mod 10)])"

declare digits.simps [simp del]

text \<open>
  \<^verbatim>\<open>x.toFixed(2)\<close>, by the steps of the language standard: \<open>NaN\<close> and the
  infinities print as such; the sign is split off; from \<open>10^21\<close> on the result is the
  plain printing of the number; below, \<open>n\<close> is the integer nearest to \<open>100 * x\<close> (the
  larger one of two), printed with at least three digits and a point before the last
  two. The standard takes \<open>x\<close> for the value the number stands for, as is done here.
\<close>

definition fixed2_digits :: "rat \<Rightarrow> jsstring" where
  "fixed2_digits x =
     (let n = nat \<lfloor>x * 100 + 1 / 2\<rfloor>;
          m = digits n;
          m = replicate (3 - length m) 48 @ m
      in take (length m - 2) m @ ascii ''.'' @ drop (length m - 2) m)"

fun toFixed2 :: "runtime \<Rightarrow> jsnum \<Rightarrow> jsstring" where
  "toFixed2 rt NaN = ascii ''NaN''"
| "toFixed2 rt PInf = ascii ''Infinity''"
| "toFixed2 rt NInf = ascii ''-Infinity''"
| "toFixed2 rt (Num x) =
     (let s = (if x < 0 then ascii ''-'' else []);
          x = (if x < 0 then - x else x)
      in if 10 ^ 21 \<le> x then s @ NumberToString rt (Num x)
         else s @ fixed2_digits x)"

section \<open>Retrieval: from search hits to expenses\<close>

text \<open>
  A hit is the metadata object stored with an indexed record; a field that is absent
  reads as \<open>JUndefined\<close>. (For a record stored without metadata the index answers
  \<^verbatim>\<open>null\<close>; \<open>buildEmbeddings\<close> stores no such record, and such a hit is not
  modelled.) A retrieved expense carries the coerced amount.
\<close>

record metadata =
  md_text :: jsval
  md_note :: jsval
  md_amount :: jsval
  md_date :: jsval

record expense =
  e_note :: jsval
  e_amount :: jsnum
  e_date :: jsval

text \<open>
  The body of the \<^verbatim>\<open>forEach\<close> over the flattened hits: coerce the amount and push
  the expense unless the amount is \<open>NaN\<close>.
\<close>

definition push_hit :: "runtime \<Rightarrow> expense list \<Rightarrow> metadata \<Rightarrow> expense list" where
  "push_hit rt expenses m =
     (let amt = Number rt (md_amount m)
      in if \<not> isNaN amt
         then expenses @ [\<lparr>e_note = md_note m, e_amount = amt, e_date = md_date m\<rparr>]
         else expenses)"

text \<open>
  \<open>results\<close> is \<open>None\<close> when the query result is nullish or its \<^verbatim>\<open>metadatas\<close> is not an
  array; otherwise it is the array of arrays of hits, which \<^verbatim>\<open>flat()\<close> concatenates.
\<close>

definition retrieve :: "runtime \<Rightarrow> metadata list list option \<Rightarrow> expense list" where
  "retrieve rt results =
     (case results of
        None \<Rightarrow> []
      | Some metadatas \<Rightarrow> foldl (push_hit rt) [] (concat metadatas))"

section \<open>Aggregation: total, month map and trend sentence\<close>

text \<open>
  The month map is an object filled key by key: an association list in insertion
  order, where \<open>AList.update\<close> overwrites a present key in place and appends a new one.
  A month label is a rendered date, never the name of a property that every object
  inherits, so a key reads \<^verbatim>\<open>undefined\<close> until it is written.
\<close>

type_synonym month_map = "(jsstring \<times> jsnum) list"

definition aggregate_step :: "runtime \<Rightarrow> jsnum \<times> month_map \<Rightarrow> expense \<Rightarrow> jsnum \<times> month_map" where
  "aggregate_step rt acc e =
     (let total = jadd (fst acc) (e_amount e);
          month = monthLabel rt (e_date e);
          monthMap = AList.update month
                       (jadd (or_zero (map_of (snd acc) month)) (e_amount e)) (snd acc)
      in (total, monthMap))"

definition aggregate :: "runtime \<Rightarrow> expense list \<Rightarrow> jsnum \<times> month_map" where
  "aggregate rt expenses = foldl (aggregate_step rt) (Num 0, []) expenses"

text \<open>\<^verbatim>\<open>monthMap[k]\<close> in arithmetic: a missing key reads \<^verbatim>\<open>undefined\<close>, which is \<open>NaN\<close> there.\<close>

definition month_value :: "month_map \<Rightarrow> jsstring \<Rightarrow> jsnum" where
  "month_value monthMap k = (case map_of monthMap k of None \<Rightarrow> NaN | Some v \<Rightarrow> v)"

text \<open>
  \<^verbatim>\<open>Object.keys(monthMap).sort()\<close>: the keys are distinct, and the default sort orders
  them by their code units, so the order in which the object lists them plays no role.
\<close>

definition sorted_months :: "month_map \<Rightarrow> jsstring list" where
  "sorted_months monthMap = sort (map fst monthMap)"

definition trend_sentence :: "runtime \<Rightarrow> jsstring \<Rightarrow> jsstring \<Rightarrow> jsnum \<Rightarrow> jsstring" where
  "trend_sentence rt lastMonth thisMonth diff =
     ascii ''Compared to '' @ lastMonth @ ascii '', your spending in '' @ thisMonth
       @ ascii '' is '' @ (if ge_zero diff then ascii ''higher'' else ascii ''lower'')
       @ ascii '' by $'' @ toFixed2 rt (Math_abs diff) @ ascii ''.''"

definition trendSummary :: "runtime \<Rightarrow> month_map \<Rightarrow> jsstring" where
  "trendSummary rt monthMap =
     (let months = sorted_months monthMap
      in if 2 \<le> length months
         then let lastMonth = months ! (length months - 2);
                  thisMonth = months ! (length months - 1);
                  diff = jsub (month_value monthMap thisMonth) (month_value monthMap lastMonth)
              in trend_sentence rt lastMonth thisMonth diff
         else [])"

section \<open>The context block and the two prompts\<close>

definition nl :: jsstring where
  "nl = [0x0A]"

text \<open>\<^verbatim>\<open>xs.join("\n")\<close>.\<close>

fun join_lines :: "jsstring list \<Rightarrow> jsstring" where
  "join_lines [] = []"
| "join_lines [x] = x"
| "join_lines (x # y # ys) = x @ nl @ join_lines (y # ys)"

definition expense_line :: "runtime \<Rightarrow> expense \<Rightarrow> jsstring" where
  "expense_line rt e =
     ascii ''- '' @ ToString rt (e_note e) @ ascii '': $''
       @ ToString rt (JNumber (e_amount e)) @ ascii '' on '' @ ToString rt (e_date e)"

definition structuredContext :: "runtime \<Rightarrow> expense list \<Rightarrow> jsnum \<Rightarrow> jsstring \<Rightarrow> jsstring" where
  "structuredContext rt expenses tot trend =
     nl @ ascii ''Top expenses:'' @ nl
       @ join_lines (map (expense_line rt) expenses) @ nl
       @ nl
       @ ascii ''Total spending: $'' @ toFixed2 rt tot @ nl
       @ trend @ nl"

definition prompt_of :: "jsstring \<Rightarrow> jsstring" where
  "prompt_of ctx =
     nl @ ascii ''You are Spendr, a friendly personal finance AI assistant.'' @ nl
       @ ascii ''Here is a summary of some recent expenses:'' @ nl
       @ nl
       @ ctx @ nl
       @ nl
       @ ascii ''Please provide a clear, warm, and helpful insight, including:'' @ nl
       @ ascii ''- Notable spending patterns'' @ nl
       @ ascii ''- Month-over-month trend (if available)'' @ nl
       @ ascii ''- 1-2 actionable suggestions to improve spending'' @ nl"

definition simplePrompt_of :: "jsstring \<Rightarrow> jsstring" where
  "simplePrompt_of ctx =
     ascii ''Write a short, friendly summary of these expenses:'' @ nl @ ctx"

section \<open>Cleaning the generated text\<close>

text \<open>
  \<^verbatim>\<open>trim()\<close> removes the white space and line terminators of the language standard
  from both ends.
\<close>

definition isWhiteSpace :: "code_unit \<Rightarrow> bool" where
  "isWhiteSpace c =
     (c \<in> {0x09, 0x0A, 0x0B, 0x0C, 0x0D, 0x20, 0xA0, 0x1680, 0x2028, 0x2029, 0x202F,
            0x205F, 0x3000, 0xFEFF}
      \<or> 0x2000 \<le> c \<and> c \<le> 0x200A)"

definition trim :: "jsstring \<Rightarrow> jsstring" where
  "trim s = rev (dropWhile isWhiteSpace (rev (dropWhile isWhiteSpace s)))"

text \<open>
  \<^verbatim>\<open>s.replace(/<s>|\[OUT\]/g, "")\<close>: one scan from the left; where a marker starts it
  is skipped, and the scan goes on behind it.
\<close>

fun strip_markers :: "jsstring \<Rightarrow> jsstring" where
  "strip_markers [] = []"
| "strip_markers (c # cs) =
     (if prefix (ascii ''<s>'') (c # cs) then strip_markers (drop 2 cs)
      else if prefix (ascii ''[OUT]'') (c # cs) then strip_markers (drop 4 cs)
      else c # strip_markers cs)"

section \<open>The outside services\<close>

text \<open>
  An exception is an \<open>error\<close> with its message. The embedding model, the vector
  index, the database and the language model are outside the program; they are the
  fields of a \<open>services\<close> record, each returning a value or the error it throws.
  \<open>'e\<close> is the type of an embedding vector, \<open>'i\<close> the state of the vector index.
  \<open>initRAG\<close> is the outcome of the memoised initialisation (\<open>Some\<close> the error when
  fetching the collection or building the model client throws). The content of a
  response of the language model is a string, or absent.
\<close>

datatype error = Error (message: jsstring)

datatype 'e embed_output = OutArray "'e list" | OutData 'e | OutOther

record chat_message =
  role :: jsstring
  content :: jsstring

record response =
  resp_content :: "jsstring option"

record 'e add_request =
  ids :: "jsstring list"
  embeddings :: "'e option list"
  metadatas :: "metadata list"

record row =
  r_id :: jsval
  r_note :: jsval
  r_amount :: jsval
  r_expense_date :: jsval

record ('e, 'i) services =
  initRAG :: "error option"
  embedPipeline :: "jsstring \<Rightarrow> error + 'e embed_output"
  pool_query :: "error + row list"
  collection_add :: "'i \<Rightarrow> 'e add_request \<Rightarrow> error option \<times> 'i"
  collection_query :: "'i \<Rightarrow> 'e option list \<Rightarrow> nat \<Rightarrow> error + metadata list list option"
  invoke :: "chat_message list \<Rightarrow> error + response option"

text \<open>
  \<open>getEmbedding\<close>: an array output gives its first element (\<^verbatim>\<open>undefined\<close>, here
  \<open>None\<close>, for an empty array), a tensor its data, anything else is an error.
\<close>

definition getEmbedding :: "('e, 'i) services \<Rightarrow> jsstring \<Rightarrow> error + 'e option" where
  "getEmbedding svc txt =
     (case embedPipeline svc txt of
        Inl err \<Rightarrow> Inl err
      | Inr (OutArray xs) \<Rightarrow> Inr (case xs of [] \<Rightarrow> None | x # _ \<Rightarrow> Some x)
      | Inr (OutData d) \<Rightarrow> Inr (Some d)
      | Inr OutOther \<Rightarrow> Inl (Error (ascii ''Unexpected embedding output format'')))"

section \<open>The insight pipeline\<close>

definition no_valid_expenses :: jsstring where
  "no_valid_expenses = [0x26A0, 0xFE0F] @ ascii '' No valid expenses found for the query.''"

definition no_meaningful_insights :: jsstring where
  "no_meaningful_insights =
     [0x26A0, 0xFE0F] @ ascii '' The model didn'' @ [0x2019]
       @ ascii ''t return meaningful insights.''"

text \<open>\<^verbatim>\<open>r?.content?.trim()\<close>: \<open>None\<close> is \<^verbatim>\<open>undefined\<close>.\<close>

definition content_trim :: "response option \<Rightarrow> jsstring option" where
  "content_trim r =
     (case r of
        None \<Rightarrow> None
      | Some r \<Rightarrow> (case resp_content r of None \<Rightarrow> None | Some c \<Rightarrow> Some (trim c)))"

text \<open>\<^verbatim>\<open>v || d\<close> for a string or \<^verbatim>\<open>undefined\<close> \<open>v\<close>: the empty string is falsy.\<close>

definition or_else :: "jsstring option \<Rightarrow> jsstring \<Rightarrow> jsstring" where
  "or_else v d = (case v of None \<Rightarrow> d | Some s \<Rightarrow> if s = [] then d else s)"

definition clean :: "jsstring \<Rightarrow> jsstring" where
  "clean s = trim (strip_markers s)"

text \<open>
  Steps 4 of \<open>queryInsights\<close>, from the context block on. The result comes with the
  list of the calls made to the language model, each with its messages.
\<close>

definition user_message :: "jsstring \<Rightarrow> chat_message list" where
  "user_message c = [\<lparr>role = ascii ''user'', content = c\<rparr>]"

definition generate :: "('e, 'i) services \<Rightarrow> jsstring \<Rightarrow> (error + jsstring) \<times> chat_message list list" where
  "generate svc ctx =
     (let messages = user_message (prompt_of ctx)
      in case invoke svc messages of
           Inl err \<Rightarrow> (Inl err, [messages])
         | Inr response \<Rightarrow>
             let insight = or_else (content_trim response) [];
                 insight = clean insight
             in if insight = [] \<or> length insight < 10
                then let retry = user_message (simplePrompt_of ctx)
                     in case invoke svc retry of
                          Inl err \<Rightarrow> (Inl err, [messages, retry])
                        | Inr retryResp \<Rightarrow>
                            let insight = or_else (content_trim retryResp) insight;
                                insight = clean insight
                            in (Inr (or_else (Some insight) no_meaningful_insights),
                                [messages, retry])
                else (Inr (or_else (Some insight) no_meaningful_insights), [messages]))"

definition queryInsights ::
  "runtime \<Rightarrow> ('e, 'i) services \<Rightarrow> 'i \<Rightarrow> jsstring \<Rightarrow> (error + jsstring) \<times> chat_message list list" where
  "queryInsights rt svc idx userQuery =
     (case initRAG svc of
        Some err \<Rightarrow> (Inl err, [])
      | None \<Rightarrow>
         (case getEmbedding svc userQuery of
            Inl err \<Rightarrow> (Inl err, [])
          | Inr queryVec \<Rightarrow>
             (case collection_query svc idx [queryVec] 3 of
                Inl err \<Rightarrow> (Inl err, [])
              | Inr results \<Rightarrow>
                  let expenses = retrieve rt results
                  in if length expenses = 0 then (Inr no_valid_expenses, [])
                     else let agg = aggregate rt expenses;
                              total = fst agg;
                              monthMap = snd agg;
                              trend = trendSummary rt monthMap
                          in generate svc (structuredContext rt expenses total trend))))"

section \<open>Ingestion\<close>

definition description :: "runtime \<Rightarrow> row \<Rightarrow> jsstring" where
  "description rt r =
     ascii ''Expense: '' @ ToString rt (r_note r) @ ascii '', Amount: $''
       @ ToString rt (r_amount r) @ ascii '', Date: '' @ ToString rt (r_expense_date r)"

text \<open>
  \<^verbatim>\<open>v.toString()\<close> throws a \<^verbatim>\<open>TypeError\<close> on \<^verbatim>\<open>null\<close> and \<^verbatim>\<open>undefined\<close> (the
  message is the engine's) and is the string conversion otherwise.
\<close>

definition toString_call :: "runtime \<Rightarrow> jsval \<Rightarrow> error + jsstring" where
  "toString_call rt v =
     (case v of
        JUndefined \<Rightarrow>
          Inl (Error (ascii ''Cannot read properties of undefined (reading '' @ [0x27]
                 @ ascii ''toString'' @ [0x27] @ ascii '')''))
      | JNull \<Rightarrow>
          Inl (Error (ascii ''Cannot read properties of null (reading '' @ [0x27]
                 @ ascii ''toString'' @ [0x27] @ ascii '')''))
      | _ \<Rightarrow> Inr (ToString rt v))"

text \<open>
  The \<^verbatim>\<open>try\<close> block for one row: describe, embed, build the request (the id's
  \<^verbatim>\<open>toString()\<close> is evaluated after the embedding), add. The result is the exception
  caught, if any, and the index after the step.
\<close>

definition try_embed :: "runtime \<Rightarrow> ('e, 'i) services \<Rightarrow> 'i \<Rightarrow> row \<Rightarrow> error option \<times> 'i" where
  "try_embed rt svc idx r =
     (let desc = description rt r
      in case getEmbedding svc desc of
           Inl err \<Rightarrow> (Some err, idx)
         | Inr vector \<Rightarrow>
            (case toString_call rt (r_id r) of
               Inl err \<Rightarrow> (Some err, idx)
             | Inr id_str \<Rightarrow>
                 collection_add svc idx
                   \<lparr>ids = [id_str],
                    embeddings = [vector],
                    metadatas =
                      [\<lparr>md_text = JString (description rt r),
                        md_note = r_note r,
                        md_amount = JNumber (Number rt (r_amount r)),
                        md_date = r_expense_date r\<rparr>]\<rparr>))"

text \<open>The console: each call with its arguments, in order.\<close>

datatype console_call = console_log "jsstring list" | console_error "jsstring list"

definition failed_line :: "runtime \<Rightarrow> row \<Rightarrow> error \<Rightarrow> console_call" where
  "failed_line rt r err =
     console_error
       [[0x26A0, 0xFE0F] @ ascii '' Failed to embed expense ID '' @ ToString rt (r_id r)
          @ ascii '':'',
        message err]"

definition found_line :: "nat \<Rightarrow> console_call" where
  "found_line n =
     console_log [[0xD83E, 0xDDFE] @ ascii '' Found '' @ digits n @ ascii '' expenses to embed...'']"

definition stored_line :: console_call where
  "stored_line = console_log [[0x2705] @ ascii '' Expense embeddings stored in Chroma!'']"

text \<open>The body of the \<^verbatim>\<open>for\<close> loop: \<^verbatim>\<open>try\<close>, and \<^verbatim>\<open>catch\<close> writes to the console.\<close>

definition embed_step ::
  "runtime \<Rightarrow> ('e, 'i) services \<Rightarrow> 'i \<times> console_call list \<Rightarrow> row \<Rightarrow> 'i \<times> console_call list" where
  "embed_step rt svc st r =
     (case try_embed rt svc (fst st) r of
        (None, idx) \<Rightarrow> (idx, snd st)
      | (Some err, idx) \<Rightarrow> (idx, snd st @ [failed_line rt r err]))"

text \<open>
  \<open>buildEmbeddings\<close> has no \<^verbatim>\<open>return\<close> statement: when it ends without an exception
  its value is \<^verbatim>\<open>undefined\<close>. The result is that value or the exception, the index
  and the console output.
\<close>

definition buildEmbeddings ::
  "runtime \<Rightarrow> ('e, 'i) services \<Rightarrow> 'i \<Rightarrow> (error + jsval) \<times> 'i \<times> console_call list" where
  "buildEmbeddings rt svc idx =
     (case initRAG svc of
        Some err \<Rightarrow> (Inl err, idx, [])
      | None \<Rightarrow>
         (case pool_query svc of
            Inl err \<Rightarrow> (Inl err, idx, [])
          | Inr expenses \<Rightarrow>
              let console = [found_line (length expenses)];
                  st = foldl (embed_step rt svc) (idx, console) expenses
              in (Inr JUndefined, fst st, snd st @ [stored_line])))"

section \<open>A runtime and services for the scenarios\<close>

text \<open>
  The scenarios are run on \<open>node_en_US_UTC\<close>: the default locale is en-US and the time
  zone is UTC. It covers what the scenarios use and agrees with the engine there:
  a month label is rendered for a date string \<^verbatim>\<open>YYYY-MM-DD\<close> with a year from 1000
  and a day up to 28; a number is printed by its decimal expansion (at most 17
  digits after the point), as the engine prints a number below \<open>10^21\<close> that has a
  short expansion; a string is read as a number, rounded to the format, when it is
  an unsigned decimal literal, with white space around it, the empty string as 0,
  and \<^verbatim>\<open>Infinity\<close> and \<^verbatim>\<open>-Infinity\<close> as the infinities. Other month
  labels, printings and literals are not in its range.
\<close>

definition is_digit :: "code_unit \<Rightarrow> bool" where
  "is_digit c = (48 \<le> c \<and> c \<le> 57)"

definition nat_of_digits :: "jsstring \<Rightarrow> nat" where
  "nat_of_digits s = foldl (\<lambda>n c. 10 * n + (unat c - 48)) 0 s"

definition month_names :: "string list" where
  "month_names =
     [''January'', ''February'', ''March'', ''April'', ''May'', ''June'', ''July'',
      ''August'', ''September'', ''October'', ''November'', ''December'']"

definition en_US_UTC_monthLabel :: "jsval \<Rightarrow> jsstring" where
  "en_US_UTC_monthLabel v =
     (case v of
        JString s \<Rightarrow>
          (let y = take 4 s; m = take 2 (drop 5 s); d = take 2 (drop 8 s)
           in if length s = 10 \<and> s ! 4 = 0x2D \<and> s ! 7 = 0x2D
                 \<and> list_all is_digit (y @ m @ d)
                 \<and> 1000 \<le> nat_of_digits y
                 \<and> 1 \<le> nat_of_digits m \<and> nat_of_digits m \<le> 12
                 \<and> 1 \<le> nat_of_digits d \<and> nat_of_digits d \<le> 28
              then ascii (month_names ! (nat_of_digits m - 1)) @ ascii '' '' @ y
              else ascii ''Invalid Date'')
      | _ \<Rightarrow> ascii ''Invalid Date'')"

fun frac_digits :: "nat \<Rightarrow> rat \<Rightarrow> jsstring" where
  "frac_digits 0 r = []"
| "frac_digits (Suc k) r =
     (if r = 0 then []
      else of_nat (48 + nat \<lfloor>r * 10\<rfloor>) # frac_digits k (r * 10 - of_int \<lfloor>r * 10\<rfloor>))"

definition print_number :: "jsnum \<Rightarrow> jsstring" where
  "print_number n =
     (case n of
        NaN \<Rightarrow> ascii ''NaN''
      | PInf \<Rightarrow> ascii ''Infinity''
      | NInf \<Rightarrow> ascii ''-Infinity''
      | Num x \<Rightarrow>
          (let a = \<bar>x\<bar>; f = a - of_int \<lfloor>a\<rfloor>
           in (if x < 0 then ascii ''-'' else []) @ digits (nat \<lfloor>a\<rfloor>)
                @ (if f = 0 then [] else ascii ''.'' @ frac_digits 17 f)))"

definition parse_decimal :: "jsstring \<Rightarrow> jsnum" where
  "parse_decimal s =
     (let t = trim s; ip = takeWhile is_digit t; rest = dropWhile is_digit t; fp = drop 1 rest
      in if t = [] then Num 0
         else if t = ascii ''Infinity'' then PInf
         else if t = ascii ''-Infinity'' then NInf
         else if rest = [] then round64 (of_nat (nat_of_digits ip))
         else if take 1 rest = ascii ''.'' \<and> list_all is_digit fp \<and> \<not> (ip = [] \<and> fp = [])
         then round64 (of_nat (nat_of_digits ip) + of_nat (nat_of_digits fp) / 10 ^ length fp)
         else NaN)"

definition node_en_US_UTC :: runtime where
  "node_en_US_UTC =
     \<lparr>StringToNumber = parse_decimal, NumberToString = print_number,
      monthLabel = en_US_UTC_monthLabel\<rparr>"

text \<open>
  A hit with a note, an amount and a date, and the two hits of the coffee scenario:
  4.50 on 2024-01-05 and 5.00 on 2024-02-03.
\<close>

definition hit :: "string \<Rightarrow> jsval \<Rightarrow> string \<Rightarrow> metadata" where
  "hit n a d =
     \<lparr>md_text = JUndefined, md_note = JString (ascii n), md_amount = a,
      md_date = JString (ascii d)\<rparr>"

definition coffee_hits :: "metadata list" where
  "coffee_hits =
     [hit ''Coffee'' (JNumber (Num 4.5)) ''2024-01-05'',
      hit ''Coffee'' (JNumber (Num 5)) ''2024-02-03'']"

text \<open>
  Three hits, two of them in January; two hits in the same month; two hits where
  January has more than February; January hits \<open>2^53\<close>, 1 and 1, whose sum is not a
  value of the format; \<open>2^53\<close> and 1 in January against \<open>2^53\<close> in February; and
  January hits with an infinite amount of either sign.
\<close>

definition three_hits :: "metadata list" where
  "three_hits =
     [hit ''Coffee'' (JNumber (Num 4.5)) ''2024-01-05'',
      hit ''Lunch'' (JNumber (Num 12.5)) ''2024-01-09'',
      hit ''Coffee'' (JNumber (Num 5)) ''2024-02-03'']"


definition dearer_hits :: "metadata list" where
  "dearer_hits =
     [hit ''Coffee'' (JNumber (Num 5)) ''2024-01-05'',
      hit ''Coffee'' (JNumber (Num 4.5)) ''2024-02-03'']"

definition big_hits :: "metadata list" where
  "big_hits =
     [hit ''House'' (JNumber (Num 9007199254740992)) ''2024-01-05'',
      hit ''Stamp'' (JNumber (Num 1)) ''2024-01-09'',
      hit ''Stamp'' (JNumber (Num 1)) ''2024-01-17'']"

definition tie_hits :: "metadata list" where
  "tie_hits =
     [hit ''House'' (JNumber (Num 9007199254740992)) ''2024-01-05'',
      hit ''Stamp'' (JNumber (Num 1)) ''2024-01-09'',
      hit ''House'' (JNumber (Num 9007199254740992)) ''2024-02-03'']"

definition unbounded_hits :: "metadata list" where
  "unbounded_hits =
     [hit ''Loan'' (JString (ascii ''Infinity'')) ''2024-01-05'',
      hit ''Refund'' (JString (ascii ''-Infinity'')) ''2024-01-09'',
      hit ''Coffee'' (JNumber (Num 5)) ''2024-01-17'']"

text \<open>
  Services for a query: the index answers every query with the given hits, the
  language model is the given function. The index state plays no role here.
\<close>

definition query_services ::
  "metadata list \<Rightarrow> (chat_message list \<Rightarrow> error + response option) \<Rightarrow> (nat list, unit) services" where
  "query_services hits model =
     \<lparr>initRAG = None,
      embedPipeline = (\<lambda>t. Inr (OutData [length t])),
      pool_query = Inr [],
      collection_add = (\<lambda>idx req. (None, idx)),
      collection_query = (\<lambda>idx vecs n. Inr (Some [hits])),
      invoke = model\<rparr>"

text \<open>
  A language model that answers the primary prompt, which begins with a line feed,
  with one content and every other prompt with another.
\<close>

definition says :: "string \<Rightarrow> error + response option" where
  "says c = Inr (Some \<lparr>resp_content = Some (ascii c)\<rparr>)"

definition model_answers ::
  "error + response option \<Rightarrow> error + response option \<Rightarrow> chat_message list \<Rightarrow> error + response option" where
  "model_answers primary retry msgs =
     (if take 1 (concat (map content msgs)) = nl then primary else retry)"

text \<open>
  Services for ingestion: the index is an association list from ids to the embedding
  and metadata stored under them; adding stores every entry of a request whose three
  arrays have the same length and rejects any other request. The embedding model
  throws on the given descriptions.
\<close>

type_synonym sample_index = "(jsstring \<times> nat list option \<times> metadata) list"

definition store_request :: "sample_index \<Rightarrow> nat list add_request \<Rightarrow> error option \<times> sample_index" where
  "store_request idx req =
     (if length (embeddings req) = length (ids req) \<and> length (metadatas req) = length (ids req)
      then (None, AList.updates (ids req) (zip (embeddings req) (metadatas req)) idx)
      else (Some (Error (ascii ''ids, embeddings and metadatas differ in length'')), idx))"

definition ingest_services :: "row list \<Rightarrow> jsstring list \<Rightarrow> (nat list, sample_index) services" where
  "ingest_services rows failing =
     \<lparr>initRAG = None,
      embedPipeline =
        (\<lambda>t. if t \<in> set failing then Inl (Error (ascii ''embedding failed''))
             else Inr (OutData [length t])),
      pool_query = Inr rows,
      collection_add = store_request,
      collection_query = (\<lambda>idx vecs n. Inr (Some [take n (map (\<lambda>p. snd (snd p)) idx)])),
      invoke = (\<lambda>msgs. says ''unused'')\<rparr>"


definition expense_row :: "rat \<Rightarrow> string \<Rightarrow> rat \<Rightarrow> string \<Rightarrow> row" where
  "expense_row i n a d =
     \<lparr>r_id = JNumber (Num i), r_note = JString (ascii n), r_amount = JNumber (Num a),
      r_expense_date = JString (ascii d)\<rparr>"

definition five_rows :: "row list" where
  "five_rows =
     [expense_row 1 ''Coffee'' 4 ''2024-01-05'',
      expense_row 2 ''Lunch'' 12 ''2024-01-09'',
      expense_row 3 ''Taxi'' 18 ''2024-01-17'',
      expense_row 4 ''Books'' 30 ''2024-02-03'',
      expense_row 5 ''Coffee'' 5 ''2024-02-11'']"

definition five_services :: "(nat list, sample_index) services" where
  "five_services =
     ingest_services five_rows [description node_en_US_UTC (five_rows ! 2)]"

section \<open>Notions used to state the properties\<close>

text \<open>
  A finite number and its rational value; a rational is a value of the format when
  rounding leaves it as it is.
\<close>

fun finite_num :: "jsnum \<Rightarrow> bool" where
  "finite_num (Num a) = True"
| "finite_num PInf = False"
| "finite_num NInf = False"
| "finite_num NaN = False"

fun num_val :: "jsnum \<Rightarrow> rat" where
  "num_val (Num a) = a"
| "num_val PInf = 0"
| "num_val NInf = 0"
| "num_val NaN = 0"

definition binary64 :: "rat \<Rightarrow> bool" where
  "binary64 r = (round64 r = Num r)"

text \<open>
  The sum of a list of numbers as the machine forms it: from 0, one addition after
  the other from left to right, each one rounded.
\<close>

definition sum64 :: "jsnum list \<Rightarrow> jsnum" where
  "sum64 xs = foldl jadd (Num 0) xs"

text \<open>The month label of an expense, and the amounts of the expenses under one label.\<close>

definition label_of :: "runtime \<Rightarrow> expense \<Rightarrow> jsstring" where
  "label_of rt e = monthLabel rt (e_date e)"

definition amounts_in :: "runtime \<Rightarrow> jsstring \<Rightarrow> expense list \<Rightarrow> jsnum list" where
  "amounts_in rt l expenses = map e_amount (filter (\<lambda>e. label_of rt e = l) expenses)"

text \<open>A hit is corrupt when its amount coerces to \<open>NaN\<close>.\<close>

definition corrupt :: "runtime \<Rightarrow> metadata \<Rightarrow> bool" where
  "corrupt rt m = isNaN (Number rt (md_amount m))"

definition to_expense :: "runtime \<Rightarrow> metadata \<Rightarrow> expense" where
  "to_expense rt m =
     \<lparr>e_note = md_note m, e_amount = Number rt (md_amount m), e_date = md_date m\<rparr>"

text \<open>
  The context block that \<open>queryInsights\<close> builds for a list of expenses, the text
  that a response of the language model carries (none is the empty text), and the
  test that sends a cleaned insight to the retry.
\<close>

definition output_text :: "response option \<Rightarrow> jsstring" where
  "output_text r =
     (case r of
        None \<Rightarrow> []
      | Some r \<Rightarrow> (case resp_content r of None \<Rightarrow> [] | Some c \<Rightarrow> c))"

definition context_of :: "runtime \<Rightarrow> expense list \<Rightarrow> jsstring" where
  "context_of rt expenses =
     structuredContext rt expenses (fst (aggregate rt expenses))
       (trendSummary rt (snd (aggregate rt expenses)))"

definition degenerate :: "jsstring \<Rightarrow> bool" where
  "degenerate insight = (insight = [] \<or> length insight < 10)"

text \<open>
  The outcome of the \<^verbatim>\<open>try\<close> block for each row of a run, in order: the exception
  caught or \<open>None\<close>, with the index handed from row to row.
\<close>

fun outcomes :: "runtime \<Rightarrow> ('e, 'i) services \<Rightarrow> 'i \<Rightarrow> row list \<Rightarrow> (row \<times> error option) list" where
  "outcomes rt svc idx [] = []"
| "outcomes rt svc idx (r # rs) =
     (r, fst (try_embed rt svc idx r)) # outcomes rt svc (snd (try_embed rt svc idx r)) rs"

text \<open>The console lines that the \<^verbatim>\<open>catch\<close> block writes for the failed rows.\<close>

definition failure_lines :: "runtime \<Rightarrow> (row \<times> error option) list \<Rightarrow> console_call list" where
  "failure_lines rt os =
     concat (map (\<lambda>p. case snd p of None \<Rightarrow> [] | Some err \<Rightarrow> [failed_line rt (fst p) err]) os)"


text \<open>
  The result that the specification's wording of the retry gives: the retry's output
  is stripped and trimmed, it is preferred when it is not empty, the original is kept
  otherwise, and an empty result becomes the sentinel.
\<close>

definition spec_retry_result :: "jsstring \<Rightarrow> jsstring \<Rightarrow> jsstring" where
  "spec_retry_result original retry_output =
     (let r = clean retry_output;
          chosen = (if r \<noteq> [] then r else original)
      in if chosen = [] then no_meaningful_insights else chosen)"

section \<open>Evaluation on concrete inputs\<close>

lemma floor_rat_numeral [simp]: "\<lfloor>(numeral a / numeral b :: rat)\<rfloor> = numeral a div numeral b"
  by (metis floor_divide_of_int_eq of_int_numeral)

lemma digits_numeral [simp]:
  "digits (numeral k) =
     (if (numeral k :: nat) < 10 then [of_nat (48 + numeral k)]
      else digits (numeral k div 10) @ [of_nat (48 + numeral k mod 10)])"
  by (rule digits.simps)

lemma digits_0 [simp]: "digits 0 = [48]"
  by (simp add: digits.simps)

lemma digits_1 [simp]: "digits (Suc 0) = [49]"
  by (simp add: digits.simps)

lemma ceiling_rat_numeral [simp]:
  "\<lceil>(numeral a / numeral b :: rat)\<rceil> = - ((- numeral a) div numeral b)"
  by (metis ceiling_divide_eq_div of_int_numeral)

lemma floor_rat_one_divide [simp]: "\<lfloor>(1 / numeral b :: rat)\<rfloor> = 1 div numeral b"
  by (metis floor_divide_of_int_eq of_int_1 of_int_numeral)

lemma ceiling_rat_one_divide [simp]: "\<lceil>(1 / numeral b :: rat)\<rceil> = - ((- 1) div numeral b)"
  by (metis ceiling_divide_eq_div of_int_1 of_int_numeral)

lemma bits_numeral [simp]: "bits (numeral k) = Suc (bits (numeral k div 2))"
  by (subst bits.simps) simp

lemma bits_0 [simp]: "bits 0 = 0"
  by (simp add: bits.simps)

lemma bits_1 [simp]: "bits (Suc 0) = 1"
  by (simp add: bits.simps)

lemmas round64_eval = round64_def ilog2_def two_pow_def round_half_even_def Let_def

lemma round64_0: "round64 0 = Num 0"
  by (simp add: round64_def)

lemma round64_not_NaN: "round64 x \<noteq> NaN"
  by (simp add: round64_def Let_def)

text \<open>
  Rounding at work: a tie goes to the even significand, 0.1 is not a value of the
  format, the sum of the values nearest to 0.1 and 0.2 is rounded upwards, the
  smallest value is \<open>2^(-1074)\<close>, and \<open>2^1024\<close> is infinite.
\<close>

lemma round64_samples:
  "round64 9007199254740993 = Num 9007199254740992"
  "round64 9007199254740995 = Num 9007199254740996"
  "round64 (1 / 10) = Num (3602879701896397 / 36028797018963968)"
  "jadd (round64 (1 / 10)) (round64 (2 / 10)) = Num (1351079888211149 / 4503599627370496)"
  "round64 (1 / 2 ^ 1074) = Num (1 / 2 ^ 1074)"
  "round64 (1 / 2 ^ 1076) = Num 0"
  "round64 (2 ^ 1024) = PInf"
  by (simp_all add: round64_eval)

lemmas sample_runtime_defs =
  node_en_US_UTC_def parse_decimal_def print_number_def en_US_UTC_monthLabel_def
  month_names_def is_digit_def nat_of_digits_def trim_def isWhiteSpace_def ascii_def

section \<open>Retrieval drops the corrupt hits\<close>

lemma foldl_push_hit:
  "foldl (push_hit rt) acc ms = acc @ map (to_expense rt) (filter (\<lambda>m. \<not> corrupt rt m) ms)"
  by (induction ms arbitrary: acc) (simp_all add: push_hit_def to_expense_def corrupt_def Let_def)

lemma retrieve_Some:
  "retrieve rt (Some mss) =
     map (to_expense rt) (filter (\<lambda>m. \<not> corrupt rt m) (concat mss))"
  by (simp add: retrieve_def foldl_push_hit)

lemma retrieve_valid: "e \<in> set (retrieve rt results) \<Longrightarrow> \<not> isNaN (e_amount e)"
  by (cases results) (auto simp add: retrieve_def foldl_push_hit to_expense_def corrupt_def)

lemma length_filter_compl:
  "length (filter (\<lambda>x. \<not> P x) xs) = length xs - length (filter P xs)"
  using sum_length_filter_compl [of P xs] by simp

text \<open>
  Claim C5. For every list of raw search hits, the retrieved expenses are the hits
  whose amount does not coerce to \<open>NaN\<close>, in order, each with the numeric coercion of
  its metadata amount: their number is the number of raw hits minus the number of
  corrupt ones, and no retrieved amount is \<open>NaN\<close>.
\<close>

theorem C5_corrupt_hits_dropped:
  "length (retrieve rt (Some mss))
     = length (concat mss) - length (filter (corrupt rt) (concat mss))
   \<and> retrieve rt (Some mss)
       = map (to_expense rt) (filter (\<lambda>m. \<not> corrupt rt m) (concat mss))
   \<and> (\<forall>e \<in> set (retrieve rt (Some mss)). \<not> isNaN (e_amount e))"
proof (intro conjI)
  show "length (retrieve rt (Some mss))
          = length (concat mss) - length (filter (corrupt rt) (concat mss))"
    by (simp add: retrieve_Some length_filter_compl)
  show "retrieve rt (Some mss)
          = map (to_expense rt) (filter (\<lambda>m. \<not> corrupt rt m) (concat mss))"
    by (rule retrieve_Some)
  show "\<forall>e \<in> set (retrieve rt (Some mss)). \<not> isNaN (e_amount e)"
    by (auto simp add: retrieve_Some to_expense_def corrupt_def)
qed

text \<open>
  Four hits in two arrays, of which the one with amount \<^verbatim>\<open>"abc"\<close> and the one without
  an amount are corrupt: two expenses remain, 4.5 and the 12.5 read from \<^verbatim>\<open>"12.50"\<close>.
\<close>

theorem C5_corrupt_hits_dropped_witness:
  "length (retrieve node_en_US_UTC
       (Some [[hit ''Coffee'' (JNumber (Num 4.5)) ''2024-01-05'',
               hit ''Tea'' (JString (ascii ''abc'')) ''2024-01-06''],
              [hit ''Gift'' JUndefined ''2024-01-07'',
               hit ''Lunch'' (JString (ascii ''12.50'')) ''2024-02-03'']])) = 4 - 2
   \<and> map e_amount (retrieve node_en_US_UTC
       (Some [[hit ''Coffee'' (JNumber (Num 4.5)) ''2024-01-05'',
               hit ''Tea'' (JString (ascii ''abc'')) ''2024-01-06''],
              [hit ''Gift'' JUndefined ''2024-01-07'',
               hit ''Lunch'' (JString (ascii ''12.50'')) ''2024-02-03'']])) = [Num 4.5, Num 12.5]"
  using C5_corrupt_hits_dropped [of node_en_US_UTC
       "[[hit ''Coffee'' (JNumber (Num 4.5)) ''2024-01-05'',
               hit ''Tea'' (JString (ascii ''abc'')) ''2024-01-06''],
              [hit ''Gift'' JUndefined ''2024-01-07'',
               hit ''Lunch'' (JString (ascii ''12.50'')) ''2024-02-03'']]"]
  by (simp add: corrupt_def to_expense_def hit_def sample_runtime_defs round64_eval)

section \<open>No valid expense: the sentinel, and no generation\<close>

text \<open>
  Claim C1. When initialisation, the query embedding and the search succeed and no
  valid expense remains of the hits, \<open>queryInsights\<close> returns the "no valid expenses
  found" sentinel, and the list of calls to the language model is empty: neither
  aggregation nor generation takes place.
\<close>

theorem C1_no_valid_expenses:
  assumes "initRAG svc = None"
    and "getEmbedding svc userQuery = Inr queryVec"
    and "collection_query svc idx [queryVec] 3 = Inr results"
    and "retrieve rt results = []"
  shows "queryInsights rt svc idx userQuery = (Inr no_valid_expenses, [])"
  using assms by (simp add: queryInsights_def)

text \<open>Two hits, both corrupt, and a language model that would answer if asked.\<close>

theorem C1_no_valid_expenses_witness:
  "queryInsights node_en_US_UTC
     (query_services
        [hit ''Tea'' (JString (ascii ''abc'')) ''2024-01-06'', hit ''Gift'' JUndefined ''2024-01-07'']
        (\<lambda>msgs. says ''never asked''))
     () (ascii ''tea'')
   = (Inr no_valid_expenses, [])"
proof (rule C1_no_valid_expenses)
  show "initRAG (query_services
        [hit ''Tea'' (JString (ascii ''abc'')) ''2024-01-06'', hit ''Gift'' JUndefined ''2024-01-07'']
        (\<lambda>msgs. says ''never asked'')) = None"
    by (simp add: query_services_def)
  show "getEmbedding (query_services
        [hit ''Tea'' (JString (ascii ''abc'')) ''2024-01-06'', hit ''Gift'' JUndefined ''2024-01-07'']
        (\<lambda>msgs. says ''never asked'')) (ascii ''tea'') = Inr (Some [3])"
    by (simp add: query_services_def getEmbedding_def ascii_def)
  show "collection_query (query_services
        [hit ''Tea'' (JString (ascii ''abc'')) ''2024-01-06'', hit ''Gift'' JUndefined ''2024-01-07'']
        (\<lambda>msgs. says ''never asked'')) () [Some [3]] 3
      = Inr (Some [[hit ''Tea'' (JString (ascii ''abc'')) ''2024-01-06'', hit ''Gift'' JUndefined ''2024-01-07'']])"
    by (simp add: query_services_def)
  show "retrieve node_en_US_UTC
      (Some [[hit ''Tea'' (JString (ascii ''abc'')) ''2024-01-06'', hit ''Gift'' JUndefined ''2024-01-07'']]) = []"
    by (simp add: retrieve_def push_hit_def hit_def sample_runtime_defs)
qed

section \<open>Aggregation\<close>

lemma aggregate_Nil: "aggregate rt [] = (Num 0, [])"
  by (simp add: aggregate_def)

lemma aggregate_snoc: "aggregate rt (es @ [e]) = aggregate_step rt (aggregate rt es) e"
  by (simp add: aggregate_def)

lemma fst_aggregate_step: "fst (aggregate_step rt acc e) = jadd (fst acc) (e_amount e)"
  by (simp add: aggregate_step_def Let_def)

lemma snd_aggregate_step:
  "snd (aggregate_step rt acc e) =
     AList.update (label_of rt e)
       (jadd (or_zero (map_of (snd acc) (label_of rt e))) (e_amount e)) (snd acc)"
  by (simp add: aggregate_step_def Let_def label_of_def)

lemma keys_aggregate: "fst ` set (snd (aggregate rt es)) = label_of rt ` set es"
  by (induction es rule: rev_induct)
     (auto simp add: aggregate_Nil aggregate_snoc snd_aggregate_step dom_update)

lemma distinct_keys_aggregate: "distinct (map fst (snd (aggregate rt es)))"
  by (induction es rule: rev_induct)
     (simp_all add: aggregate_Nil aggregate_snoc snd_aggregate_step distinct_update)

lemma amounts_in_snoc:
  "amounts_in rt l (es @ [e]) =
     amounts_in rt l es @ (if label_of rt e = l then [e_amount e] else [])"
  by (simp add: amounts_in_def)

lemma sum64_Nil: "sum64 [] = Num 0"
  by (simp add: sum64_def)

lemma sum64_snoc: "sum64 (xs @ [a]) = jadd (sum64 xs) a"
  by (simp add: sum64_def)

lemma jadd_zero_left:
  "(\<And>r. a = Num r \<Longrightarrow> binary64 r) \<Longrightarrow> jadd (Num 0) a = a"
  by (cases a) (simp_all add: binary64_def)

lemma jadd_not_NaN: "a \<noteq> NaN \<Longrightarrow> finite_num b \<Longrightarrow> jadd a b \<noteq> NaN"
  by (cases a; cases b) (simp_all add: round64_not_NaN)

lemma sum64_not_NaN: "\<forall>a \<in> set xs. finite_num a \<Longrightarrow> sum64 xs \<noteq> NaN"
  by (induction xs rule: rev_induct) (simp_all add: sum64_Nil sum64_snoc jadd_not_NaN)

lemma or_zero_Some: "v \<noteq> NaN \<Longrightarrow> or_zero (Some v) = v"
  by (cases v) simp_all

lemma total_aggregate: "fst (aggregate rt es) = sum64 (map e_amount es)"
  by (induction es rule: rev_induct)
     (simp_all add: aggregate_Nil aggregate_snoc fst_aggregate_step sum64_Nil sum64_snoc)

lemma amounts_in_finite:
  "\<forall>e \<in> set es. finite_num (e_amount e) \<Longrightarrow> \<forall>a \<in> set (amounts_in rt l es). finite_num a"
  by (auto simp add: amounts_in_def)

lemma month_map_aggregate:
  "\<forall>e \<in> set es. finite_num (e_amount e) \<Longrightarrow>
     map_of (snd (aggregate rt es)) l =
       (if l \<in> label_of rt ` set es then Some (sum64 (amounts_in rt l es)) else None)"
proof (induction es arbitrary: l rule: rev_induct)
  case Nil
  show ?case by (simp add: aggregate_Nil)
next
  case (snoc e es)
  have fin: "\<forall>e \<in> set es. finite_num (e_amount e)"
    using snoc.prems by simp
  have IH: "\<And>l. map_of (snd (aggregate rt es)) l =
       (if l \<in> label_of rt ` set es then Some (sum64 (amounts_in rt l es)) else None)"
    using snoc.IH fin by simp
  have empty: "label_of rt e \<notin> label_of rt ` set es \<Longrightarrow> amounts_in rt (label_of rt e) es = []"
    by (auto simp add: amounts_in_def filter_empty_conv intro: rev_image_eqI)
  have keep: "or_zero (Some (sum64 (amounts_in rt (label_of rt e) es)))
      = sum64 (amounts_in rt (label_of rt e) es)"
    using amounts_in_finite [OF fin] by (intro or_zero_Some sum64_not_NaN)
  show ?case
  proof (cases "l = label_of rt e")
    case True
    show ?thesis
    proof (cases "label_of rt e \<in> label_of rt ` set es")
      case True
      with \<open>l = label_of rt e\<close> show ?thesis
        by (simp add: aggregate_snoc snd_aggregate_step update_conv' IH amounts_in_snoc
              sum64_snoc keep)
    next
      case False
      with \<open>l = label_of rt e\<close> show ?thesis
        by (simp add: aggregate_snoc snd_aggregate_step update_conv' IH amounts_in_snoc
              empty sum64_def)
    qed
  next
    case False
    then show ?thesis
      by (auto simp add: aggregate_snoc snd_aggregate_step update_conv' IH amounts_in_snoc)
  qed
qed

lemma sum64_exact:
  "(\<forall>k \<le> length rs. binary64 (sum_list (take k rs))) \<Longrightarrow> sum64 (map Num rs) = Num (sum_list rs)"
proof (induction rs rule: rev_induct)
  case Nil
  show ?case by (simp add: sum64_Nil)
next
  case (snoc r rs)
  have "\<forall>k \<le> length rs. binary64 (sum_list (take k rs))"
  proof (intro allI impI)
    fix k assume k: "k \<le> length rs"
    then have "k \<le> length (rs @ [r])"
      by simp
    with snoc.prems have "binary64 (sum_list (take k (rs @ [r])))"
      by blast
    with k show "binary64 (sum_list (take k rs))"
      by simp
  qed
  with snoc.IH have "sum64 (map Num rs) = Num (sum_list rs)"
    by simp
  moreover from snoc.prems have "binary64 (sum_list (take (length (rs @ [r])) (rs @ [r])))"
    by blast
  then have "round64 (sum_list rs + r) = Num (sum_list rs + r)"
    by (simp add: binary64_def)
  ultimately show ?case
    by (simp add: sum64_snoc)
qed

text \<open>
  Claim C2, as the code has it. For every list of expenses the total is the sum of
  all amounts as the machine forms it, from left to right with each addition rounded
  to the binary64 format; for a single expense it is that amount. The month map has
  one key for each month label that occurs, and when the amounts are finite the value
  under a label is the sum, formed the same way, of the amounts of the expenses with
  that label. Such a sum is the exact sum whenever no partial sum needs rounding.
\<close>

theorem C2_total_and_month_sums:
  "fst (aggregate rt expenses) = sum64 (map e_amount expenses)
   \<and> (expenses = [e] \<and> (\<forall>r. e_amount e = Num r \<longrightarrow> binary64 r) \<longrightarrow>
        fst (aggregate rt expenses) = e_amount e)
   \<and> distinct (map fst (snd (aggregate rt expenses)))
   \<and> set (map fst (snd (aggregate rt expenses))) = label_of rt ` set expenses
   \<and> ((\<forall>e \<in> set expenses. finite_num (e_amount e)) \<longrightarrow>
        (\<forall>l. map_of (snd (aggregate rt expenses)) l =
          (if l \<in> label_of rt ` set expenses
           then Some (sum64 (amounts_in rt l expenses)) else None)))
   \<and> ((\<forall>k \<le> length rs. binary64 (sum_list (take k rs))) \<longrightarrow>
        sum64 (map Num rs) = Num (sum_list rs))"
proof (intro conjI impI)
  show "fst (aggregate rt expenses) = sum64 (map e_amount expenses)"
    by (rule total_aggregate)
  show "distinct (map fst (snd (aggregate rt expenses)))"
    by (rule distinct_keys_aggregate)
  show "set (map fst (snd (aggregate rt expenses))) = label_of rt ` set expenses"
    by (simp add: keys_aggregate)
next
  assume "expenses = [e] \<and> (\<forall>r. e_amount e = Num r \<longrightarrow> binary64 r)"
  then show "fst (aggregate rt expenses) = e_amount e"
    by (simp add: total_aggregate sum64_def jadd_zero_left)
next
  assume "\<forall>e \<in> set expenses. finite_num (e_amount e)"
  then show "\<forall>l. map_of (snd (aggregate rt expenses)) l =
          (if l \<in> label_of rt ` set expenses
           then Some (sum64 (amounts_in rt l expenses)) else None)"
    by (simp add: month_map_aggregate)
next
  assume "\<forall>k \<le> length rs. binary64 (sum_list (take k rs))"
  then show "sum64 (map Num rs) = Num (sum_list rs)"
    by (rule sum64_exact)
qed

section \<open>The trend sentence\<close>






lemma sort_two:
  fixes a b :: "'a::linorder"
  assumes "distinct xs" and "set xs = {a, b}" and "a < b"
  shows "sort xs = [a, b]"
proof -
  have "sort xs = sorted_list_of_set (set xs)"
    using assms(1) by (simp add: sorted_list_of_set_sort_remdups distinct_remdups_id)
  also have "\<dots> = [a, b]"
    using assms(2,3) by (simp add: insort_is_Cons less_imp_le)
  finally show ?thesis .
qed

lemma toFixed2_zero: "toFixed2 rt (Num 0) = ascii ''0.00''"
  by (simp add: fixed2_digits_def ascii_def)

lemma trendSummary_two:
  assumes "label_of rt ` set expenses = {a, b}" and "a < b"
  shows "trendSummary rt (snd (aggregate rt expenses)) =
           trend_sentence rt a b
             (jsub (month_value (snd (aggregate rt expenses)) b)
                   (month_value (snd (aggregate rt expenses)) a))"
proof -
  let ?mm = "snd (aggregate rt expenses)"
  have "sorted_months ?mm = [a, b]"
    unfolding sorted_months_def
  proof (rule sort_two)
    show "distinct (map fst ?mm)" by (rule distinct_keys_aggregate)
    show "set (map fst ?mm) = {a, b}" using assms(1) by (simp add: keys_aggregate)
    show "a < b" by (rule assms(2))
  qed
  then show ?thesis
    by (simp add: trendSummary_def)
qed

text \<open>
  Claim C10. When exactly two distinct month labels \<open>a < b\<close> occur, with finite sums
  \<open>x\<close> and \<open>y\<close> in the month map, then for equal sums the trend sentence reports the
  spending in the later-sorted month \<open>b\<close> as higher by $0.00; and for every
  difference the wording is chosen by \<^verbatim>\<open>diff >= 0\<close>: with the rounded difference
  \<open>d\<close> of \<open>y\<close> and \<open>x\<close> the sentence says higher when \<open>0 \<le> d\<close> and lower otherwise, by the
  absolute value of \<open>d\<close>, and likewise when the difference is infinite.
\<close>

theorem C10_equal_months_higher_by_zero:
  assumes "label_of rt ` set expenses = {a, b}"
    and "a < b"
    and "month_value (snd (aggregate rt expenses)) a = Num x"
    and "month_value (snd (aggregate rt expenses)) b = Num y"
  shows "(x = y \<longrightarrow>
           trendSummary rt (snd (aggregate rt expenses)) =
             ascii ''Compared to '' @ a @ ascii '', your spending in '' @ b
               @ ascii '' is higher by $0.00.'')
       \<and> (round64 (y - x) = Num d \<longrightarrow>
           trendSummary rt (snd (aggregate rt expenses)) =
             ascii ''Compared to '' @ a @ ascii '', your spending in '' @ b @ ascii '' is ''
               @ (if 0 \<le> d then ascii ''higher'' else ascii ''lower'')
               @ ascii '' by $'' @ toFixed2 rt (Num \<bar>d\<bar>) @ ascii ''.'')
       \<and> (round64 (y - x) = PInf \<longrightarrow>
           trendSummary rt (snd (aggregate rt expenses)) =
             ascii ''Compared to '' @ a @ ascii '', your spending in '' @ b
               @ ascii '' is higher by $Infinity.'')
       \<and> (round64 (y - x) = NInf \<longrightarrow>
           trendSummary rt (snd (aggregate rt expenses)) =
             ascii ''Compared to '' @ a @ ascii '', your spending in '' @ b
               @ ascii '' is lower by $Infinity.'')"
proof -
  have sentence: "trendSummary rt (snd (aggregate rt expenses)) =
      trend_sentence rt a b (round64 (y - x))"
    using trendSummary_two [OF assms(1,2)] assms(3,4) by simp
  show ?thesis
  proof (intro conjI impI)
    assume "x = y"
    then show "trendSummary rt (snd (aggregate rt expenses)) =
             ascii ''Compared to '' @ a @ ascii '', your spending in '' @ b
               @ ascii '' is higher by $0.00.''"
      by (simp add: sentence round64_0 trend_sentence_def toFixed2_zero del: toFixed2.simps)
         (simp add: ascii_def)
  next
    assume "round64 (y - x) = Num d"
    then show "trendSummary rt (snd (aggregate rt expenses)) =
             ascii ''Compared to '' @ a @ ascii '', your spending in '' @ b @ ascii '' is ''
               @ (if 0 \<le> d then ascii ''higher'' else ascii ''lower'')
               @ ascii '' by $'' @ toFixed2 rt (Num \<bar>d\<bar>) @ ascii ''.''"
      by (simp add: sentence trend_sentence_def del: toFixed2.simps)
  next
    assume "round64 (y - x) = PInf"
    then show "trendSummary rt (snd (aggregate rt expenses)) =
             ascii ''Compared to '' @ a @ ascii '', your spending in '' @ b
               @ ascii '' is higher by $Infinity.''"
      by (simp add: sentence trend_sentence_def) (simp add: ascii_def)
  next
    assume "round64 (y - x) = NInf"
    then show "trendSummary rt (snd (aggregate rt expenses)) =
             ascii ''Compared to '' @ a @ ascii '', your spending in '' @ b
               @ ascii '' is lower by $Infinity.''"
      by (simp add: sentence trend_sentence_def) (simp add: ascii_def)
  qed
qed


section \<open>The scenarios\<close>

lemma label_jan: "monthLabel node_en_US_UTC (JString (ascii ''2024-01-05'')) = ascii ''January 2024''"
  by (simp add: sample_runtime_defs)

lemma label_jan9: "monthLabel node_en_US_UTC (JString (ascii ''2024-01-09'')) = ascii ''January 2024''"
  by (simp add: sample_runtime_defs)

lemma label_jan17: "monthLabel node_en_US_UTC (JString (ascii ''2024-01-17'')) = ascii ''January 2024''"
  by (simp add: sample_runtime_defs)

lemma label_feb: "monthLabel node_en_US_UTC (JString (ascii ''2024-02-03'')) = ascii ''February 2024''"
  by (simp add: sample_runtime_defs)

lemmas sample_labels = label_jan label_jan9 label_jan17 label_feb

lemma jan_neq_feb: "ascii ''January 2024'' \<noteq> ascii ''February 2024''"
  by (simp add: ascii_def)

lemma feb_less_jan: "ascii ''February 2024'' < ascii ''January 2024''"
  by (simp add: ascii_def)

lemma coffee_expenses:
  "retrieve node_en_US_UTC (Some [coffee_hits]) =
     [\<lparr>e_note = JString (ascii ''Coffee''), e_amount = Num 4.5,
        e_date = JString (ascii ''2024-01-05'')\<rparr>,
      \<lparr>e_note = JString (ascii ''Coffee''), e_amount = Num 5,
        e_date = JString (ascii ''2024-02-03'')\<rparr>]"
  by (simp add: retrieve_def push_hit_def coffee_hits_def hit_def)

lemma three_expenses:
  "retrieve node_en_US_UTC (Some [three_hits]) =
     [\<lparr>e_note = JString (ascii ''Coffee''), e_amount = Num 4.5,
        e_date = JString (ascii ''2024-01-05'')\<rparr>,
      \<lparr>e_note = JString (ascii ''Lunch''), e_amount = Num 12.5,
        e_date = JString (ascii ''2024-01-09'')\<rparr>,
      \<lparr>e_note = JString (ascii ''Coffee''), e_amount = Num 5,
        e_date = JString (ascii ''2024-02-03'')\<rparr>]"
  by (simp add: retrieve_def push_hit_def three_hits_def hit_def)


lemma dearer_expenses:
  "retrieve node_en_US_UTC (Some [dearer_hits]) =
     [\<lparr>e_note = JString (ascii ''Coffee''), e_amount = Num 5,
        e_date = JString (ascii ''2024-01-05'')\<rparr>,
      \<lparr>e_note = JString (ascii ''Coffee''), e_amount = Num 4.5,
        e_date = JString (ascii ''2024-02-03'')\<rparr>]"
  by (simp add: retrieve_def push_hit_def dearer_hits_def hit_def)

lemma big_expenses:
  "retrieve node_en_US_UTC (Some [big_hits]) =
     [\<lparr>e_note = JString (ascii ''House''), e_amount = Num 9007199254740992,
        e_date = JString (ascii ''2024-01-05'')\<rparr>,
      \<lparr>e_note = JString (ascii ''Stamp''), e_amount = Num 1,
        e_date = JString (ascii ''2024-01-09'')\<rparr>,
      \<lparr>e_note = JString (ascii ''Stamp''), e_amount = Num 1,
        e_date = JString (ascii ''2024-01-17'')\<rparr>]"
  by (simp add: retrieve_def push_hit_def big_hits_def hit_def Let_def)

lemma tie_expenses:
  "retrieve node_en_US_UTC (Some [tie_hits]) =
     [\<lparr>e_note = JString (ascii ''House''), e_amount = Num 9007199254740992,
        e_date = JString (ascii ''2024-01-05'')\<rparr>,
      \<lparr>e_note = JString (ascii ''Stamp''), e_amount = Num 1,
        e_date = JString (ascii ''2024-01-09'')\<rparr>,
      \<lparr>e_note = JString (ascii ''House''), e_amount = Num 9007199254740992,
        e_date = JString (ascii ''2024-02-03'')\<rparr>]"
  by (simp add: retrieve_def push_hit_def tie_hits_def hit_def Let_def)

lemma unbounded_expenses:
  "retrieve node_en_US_UTC (Some [unbounded_hits]) =
     [\<lparr>e_note = JString (ascii ''Loan''), e_amount = PInf,
        e_date = JString (ascii ''2024-01-05'')\<rparr>,
      \<lparr>e_note = JString (ascii ''Refund''), e_amount = NInf,
        e_date = JString (ascii ''2024-01-09'')\<rparr>,
      \<lparr>e_note = JString (ascii ''Coffee''), e_amount = Num 5,
        e_date = JString (ascii ''2024-01-17'')\<rparr>]"
  by (simp add: retrieve_def push_hit_def unbounded_hits_def hit_def Let_def
        node_en_US_UTC_def parse_decimal_def trim_def isWhiteSpace_def ascii_def)

lemma rounded:
  "round64 (9 / 2) = Num (9 / 2)" "round64 5 = Num 5" "round64 (19 / 2) = Num (19 / 2)"
  "round64 (- (1 / 2)) = Num (- (1 / 2))" "round64 (1 / 2) = Num (1 / 2)"
  "round64 17 = Num 17" "round64 22 = Num 22"
  "round64 9007199254740992 = Num 9007199254740992"
  "round64 9007199254740993 = Num 9007199254740992"
  by (simp_all add: round64_eval)

lemmas aggregate_eval = aggregate_def aggregate_step_def sample_labels jan_neq_feb
  jan_neq_feb [symmetric] rounded

lemma coffee_aggregate:
  "aggregate node_en_US_UTC (retrieve node_en_US_UTC (Some [coffee_hits])) =
     (Num 9.5, [(ascii ''January 2024'', Num 4.5), (ascii ''February 2024'', Num 5)])"
  by (simp add: coffee_expenses aggregate_eval)

lemma dearer_aggregate:
  "aggregate node_en_US_UTC (retrieve node_en_US_UTC (Some [dearer_hits])) =
     (Num 9.5, [(ascii ''January 2024'', Num 5), (ascii ''February 2024'', Num 4.5)])"
  by (simp add: dearer_expenses aggregate_eval)

lemma three_aggregate:
  "aggregate node_en_US_UTC (retrieve node_en_US_UTC (Some [three_hits])) =
     (Num 22, [(ascii ''January 2024'', Num 17), (ascii ''February 2024'', Num 5)])"
  by (simp add: three_expenses aggregate_eval)

lemma big_aggregate:
  "aggregate node_en_US_UTC (retrieve node_en_US_UTC (Some [big_hits])) =
     (Num 9007199254740992, [(ascii ''January 2024'', Num 9007199254740992)])"
  by (simp add: big_expenses aggregate_eval)

lemma tie_aggregate:
  "aggregate node_en_US_UTC (retrieve node_en_US_UTC (Some [tie_hits])) =
     (Num 18014398509481984,
      [(ascii ''January 2024'', Num 9007199254740992),
       (ascii ''February 2024'', Num 9007199254740992)])"
  by (simp add: tie_expenses aggregate_eval) (simp add: round64_eval)

lemma unbounded_aggregate:
  "aggregate node_en_US_UTC (retrieve node_en_US_UTC (Some [unbounded_hits])) =
     (NaN, [(ascii ''January 2024'', Num 5)])"
  by (simp add: unbounded_expenses aggregate_eval)


text \<open>
  Three hits, 4.5 and 12.5 in January 2024 and 5 in February 2024, where no sum needs
  rounding: the total is 22, January has 17, February 5, and no other label is a key.
\<close>

theorem C2_total_and_month_sums_witness:
  "fst (aggregate node_en_US_UTC (retrieve node_en_US_UTC (Some [three_hits]))) = Num 22
   \<and> map_of (snd (aggregate node_en_US_UTC (retrieve node_en_US_UTC (Some [three_hits]))))
        (ascii ''January 2024'') = Some (Num 17)
   \<and> map_of (snd (aggregate node_en_US_UTC (retrieve node_en_US_UTC (Some [three_hits]))))
        (ascii ''February 2024'') = Some (Num 5)
   \<and> map_of (snd (aggregate node_en_US_UTC (retrieve node_en_US_UTC (Some [three_hits]))))
        (ascii ''March 2024'') = None
   \<and> sum64 (map Num [4.5, 12.5, 5]) = Num 22"
proof -
  have march: "ascii ''March 2024'' \<noteq> ascii ''January 2024''"
    "ascii ''March 2024'' \<noteq> ascii ''February 2024''"
    by (simp_all add: ascii_def)
  have exact: "\<forall>k \<le> length [4.5, 12.5, 5 :: rat]. binary64 (sum_list (take k [4.5, 12.5, 5]))"
  proof (intro allI impI)
    fix k :: nat assume "k \<le> length [4.5, 12.5, 5 :: rat]"
    then have "k = 0 \<or> k = 1 \<or> k = 2 \<or> k = 3"
      by auto
    then show "binary64 (sum_list (take k [4.5, 12.5, 5 :: rat]))"
      by (auto simp add: binary64_def round64_0 rounded eval_nat_numeral)
  qed
  show ?thesis
    using C2_total_and_month_sums
      [of node_en_US_UTC "retrieve node_en_US_UTC (Some [three_hits])" _ "[4.5, 12.5, 5]"]
      exact
    by (simp add: three_expenses label_of_def amounts_in_def sample_labels jan_neq_feb
          jan_neq_feb [symmetric] march sum64_def rounded)
qed

text \<open>
  The January hits \<open>2^53\<close>, 1 and 1: each addition of 1 is rounded away, the total and
  the sum of the month are \<open>2^53\<close>, and the sum of the amounts is \<open>2^53 + 2\<close>. And the
  January hits with the amounts \<^verbatim>\<open>Infinity\<close>, \<^verbatim>\<open>-Infinity\<close> and 5: the total is
  \<open>NaN\<close>, while the month, whose \<open>NaN\<close> is taken for 0 by \<^verbatim>\<open>|| 0\<close>, has 5.
\<close>

theorem C2_rounded_sum_counterexample:
  "fst (aggregate node_en_US_UTC (retrieve node_en_US_UTC (Some [big_hits])))
     = Num 9007199254740992
   \<and> map_of (snd (aggregate node_en_US_UTC (retrieve node_en_US_UTC (Some [big_hits]))))
        (ascii ''January 2024'') = Some (Num 9007199254740992)
   \<and> sum_list (map (\<lambda>e. num_val (e_amount e)) (retrieve node_en_US_UTC (Some [big_hits])))
     = 9007199254740994
   \<and> fst (aggregate node_en_US_UTC (retrieve node_en_US_UTC (Some [unbounded_hits]))) = NaN
   \<and> map_of (snd (aggregate node_en_US_UTC (retrieve node_en_US_UTC (Some [unbounded_hits]))))
        (ascii ''January 2024'') = Some (Num 5)"
  by (simp add: big_aggregate unbounded_aggregate) (simp add: big_expenses)


lemma two_labels:
  "label_of node_en_US_UTC ` set (retrieve node_en_US_UTC (Some [tie_hits]))
     = {ascii ''February 2024'', ascii ''January 2024''}"
  "label_of node_en_US_UTC ` set (retrieve node_en_US_UTC (Some [coffee_hits]))
     = {ascii ''February 2024'', ascii ''January 2024''}"
  "label_of node_en_US_UTC ` set (retrieve node_en_US_UTC (Some [dearer_hits]))
     = {ascii ''February 2024'', ascii ''January 2024''}"
  by (auto simp add: tie_expenses coffee_expenses dearer_expenses label_of_def sample_labels)

lemma toFixed2_half: "toFixed2 rt (Num (1 / 2)) = ascii ''0.50''"
  by (simp add: fixed2_digits_def ascii_def)

text \<open>
  "February 2024" sorts before "January 2024". With \<open>2^53\<close> and 1 in January against
  \<open>2^53\<close> in February the two sums are equal as the machine forms them: higher by
  $0.00. With 4.5 in January and 5 in February the difference is negative: lower by
  $0.50. With 5 in January and 4.5 in February it is positive: higher by $0.50.
\<close>

theorem C10_equal_months_higher_by_zero_witness:
  "trendSummary node_en_US_UTC
      (snd (aggregate node_en_US_UTC (retrieve node_en_US_UTC (Some [tie_hits]))))
     = ascii ''Compared to February 2024, your spending in January 2024 is higher by $0.00.''
   \<and> trendSummary node_en_US_UTC
      (snd (aggregate node_en_US_UTC (retrieve node_en_US_UTC (Some [coffee_hits]))))
     = ascii ''Compared to February 2024, your spending in January 2024 is lower by $0.50.''
   \<and> trendSummary node_en_US_UTC
      (snd (aggregate node_en_US_UTC (retrieve node_en_US_UTC (Some [dearer_hits]))))
     = ascii ''Compared to February 2024, your spending in January 2024 is higher by $0.50.''"
proof (intro conjI)
  have v: "month_value (snd (aggregate node_en_US_UTC (retrieve node_en_US_UTC (Some [tie_hits]))))
        (ascii ''February 2024'') = Num 9007199254740992"
    "month_value (snd (aggregate node_en_US_UTC (retrieve node_en_US_UTC (Some [tie_hits]))))
        (ascii ''January 2024'') = Num 9007199254740992"
    by (simp_all add: tie_aggregate month_value_def jan_neq_feb jan_neq_feb [symmetric])
  show "trendSummary node_en_US_UTC
      (snd (aggregate node_en_US_UTC (retrieve node_en_US_UTC (Some [tie_hits]))))
     = ascii ''Compared to February 2024, your spending in January 2024 is higher by $0.00.''"
    using C10_equal_months_higher_by_zero [OF two_labels(1) feb_less_jan v, THEN conjunct1]
    by (simp add: ascii_def)
next
  have v: "month_value (snd (aggregate node_en_US_UTC (retrieve node_en_US_UTC (Some [coffee_hits]))))
        (ascii ''February 2024'') = Num 5"
    "month_value (snd (aggregate node_en_US_UTC (retrieve node_en_US_UTC (Some [coffee_hits]))))
        (ascii ''January 2024'') = Num (9 / 2)"
    by (simp_all add: coffee_aggregate month_value_def jan_neq_feb jan_neq_feb [symmetric])
  show "trendSummary node_en_US_UTC
      (snd (aggregate node_en_US_UTC (retrieve node_en_US_UTC (Some [coffee_hits]))))
     = ascii ''Compared to February 2024, your spending in January 2024 is lower by $0.50.''"
    using C10_equal_months_higher_by_zero
      [OF two_labels(2) feb_less_jan v, of "- (1 / 2)", THEN conjunct2, THEN conjunct1]
    by (simp add: rounded toFixed2_half del: toFixed2.simps) (simp add: ascii_def)
next
  have v: "month_value (snd (aggregate node_en_US_UTC (retrieve node_en_US_UTC (Some [dearer_hits]))))
        (ascii ''February 2024'') = Num (9 / 2)"
    "month_value (snd (aggregate node_en_US_UTC (retrieve node_en_US_UTC (Some [dearer_hits]))))
        (ascii ''January 2024'') = Num 5"
    by (simp_all add: dearer_aggregate month_value_def jan_neq_feb jan_neq_feb [symmetric])
  show "trendSummary node_en_US_UTC
      (snd (aggregate node_en_US_UTC (retrieve node_en_US_UTC (Some [dearer_hits]))))
     = ascii ''Compared to February 2024, your spending in January 2024 is higher by $0.50.''"
    using C10_equal_months_higher_by_zero
      [OF two_labels(3) feb_less_jan v, of "1 / 2", THEN conjunct2, THEN conjunct1]
    by (simp add: rounded toFixed2_half del: toFixed2.simps) (simp add: ascii_def)
qed

text \<open>
  Claim C4, the coffee scenario, evaluated on the code: the total is 9.5 and the month
  labels are "January 2024" and "February 2024"; sorted as strings, "February 2024"
  comes first, so January is taken for the more recent month and the sentence reads
  "Compared to February 2024, your spending in January 2024 is lower by $0.50.",
  where the claim has February higher than January.
\<close>

theorem C4_coffee_scenario:
  "aggregate node_en_US_UTC (retrieve node_en_US_UTC (Some [coffee_hits]))
     = (Num 9.5, [(ascii ''January 2024'', Num 4.5), (ascii ''February 2024'', Num 5)])
   \<and> sorted_months (snd (aggregate node_en_US_UTC (retrieve node_en_US_UTC (Some [coffee_hits]))))
     = [ascii ''February 2024'', ascii ''January 2024'']
   \<and> trendSummary node_en_US_UTC
        (snd (aggregate node_en_US_UTC (retrieve node_en_US_UTC (Some [coffee_hits]))))
     = ascii ''Compared to February 2024, your spending in January 2024 is lower by $0.50.''"
proof (intro conjI)
  show "aggregate node_en_US_UTC (retrieve node_en_US_UTC (Some [coffee_hits]))
     = (Num 9.5, [(ascii ''January 2024'', Num 4.5), (ascii ''February 2024'', Num 5)])"
    by (rule coffee_aggregate)
  show "sorted_months (snd (aggregate node_en_US_UTC (retrieve node_en_US_UTC (Some [coffee_hits]))))
     = [ascii ''February 2024'', ascii ''January 2024'']"
    by (simp add: coffee_aggregate sorted_months_def) (simp add: ascii_def)
  show "trendSummary node_en_US_UTC
        (snd (aggregate node_en_US_UTC (retrieve node_en_US_UTC (Some [coffee_hits]))))
     = ascii ''Compared to February 2024, your spending in January 2024 is lower by $0.50.''"
    by (simp add: coffee_aggregate trendSummary_def sorted_months_def month_value_def
          trend_sentence_def fixed2_digits_def rounded ascii_def)
qed

section \<open>Trimming before the markers are stripped changes nothing\<close>

lemma marker_not_white:
  "\<not> isWhiteSpace 60" "\<not> isWhiteSpace 115" "\<not> isWhiteSpace 62"
  "\<not> isWhiteSpace 91" "\<not> isWhiteSpace 79" "\<not> isWhiteSpace 85"
  "\<not> isWhiteSpace 84" "\<not> isWhiteSpace 93"
  by (simp_all add: isWhiteSpace_def)

lemma strip_markers_white_Cons:
  "isWhiteSpace w \<Longrightarrow> strip_markers (w # s) = w # strip_markers s"
  using marker_not_white by (auto simp add: ascii_def)

lemma strip_markers_white:
  "\<forall>c \<in> set ws. isWhiteSpace c \<Longrightarrow> strip_markers (ws @ s) = ws @ strip_markers s"
  by (induction ws) (simp_all add: strip_markers_white_Cons del: strip_markers.simps)

lemma prefix_marker_append:
  assumes "\<forall>c \<in> set ws. isWhiteSpace c" and "\<forall>c \<in> set m. \<not> isWhiteSpace c"
  shows "prefix m (s @ ws) \<longleftrightarrow> prefix m s"
proof
  assume "prefix m s"
  then show "prefix m (s @ ws)" by (rule prefix_prefix)
next
  assume "prefix m (s @ ws)"
  then have "prefix m s \<or> (\<exists>us. m = s @ us \<and> prefix us ws)"
    by (simp add: prefix_append)
  then show "prefix m s"
  proof
    assume "prefix m s"
    then show ?thesis .
  next
    assume "\<exists>us. m = s @ us \<and> prefix us ws"
    then obtain us where m: "m = s @ us" and us: "prefix us ws"
      by blast
    show ?thesis
    proof (cases us)
      case Nil
      with m show ?thesis by simp
    next
      case (Cons u us')
      with m us have "u \<in> set m" "u \<in> set ws"
        by (auto dest: set_mono_prefix)
      with assms show ?thesis by blast
    qed
  qed
qed

lemma strip_markers_append_white:
  assumes ws: "\<forall>c \<in> set ws. isWhiteSpace c"
  shows "strip_markers (s @ ws) = strip_markers s @ ws"
proof (induction s rule: strip_markers.induct)
  case 1
  from ws show ?case
    using strip_markers_white [of ws "[]"] by simp
next
  case (2 c cs)
  have m1: "\<forall>c \<in> set (ascii ''<s>''). \<not> isWhiteSpace c"
    and m2: "\<forall>c \<in> set (ascii ''[OUT]''). \<not> isWhiteSpace c"
    using marker_not_white by (simp_all add: ascii_def)
  have p1: "prefix (ascii ''<s>'') ((c # cs) @ ws) \<longleftrightarrow> prefix (ascii ''<s>'') (c # cs)"
    by (rule prefix_marker_append [OF ws m1])
  have p2: "prefix (ascii ''[OUT]'') ((c # cs) @ ws) \<longleftrightarrow> prefix (ascii ''[OUT]'') (c # cs)"
    by (rule prefix_marker_append [OF ws m2])
  show ?case
  proof (cases "prefix (ascii ''<s>'') (c # cs)")
    case True
    then have "2 \<le> length cs"
      by (auto simp add: ascii_def prefix_def)
    with True 2 p1 show ?thesis by simp
  next
    case False
    note no1 = this
    show ?thesis
    proof (cases "prefix (ascii ''[OUT]'') (c # cs)")
      case True
      then have "4 \<le> length cs"
        by (auto simp add: ascii_def prefix_def)
      with True no1 2 p1 p2 show ?thesis by simp
    next
      case False
      with no1 2 p1 p2 show ?thesis by simp
    qed
  qed
qed


lemma trim_decompose:
  "\<exists>ws1 ws2. s = ws1 @ trim s @ ws2
      \<and> (\<forall>c \<in> set ws1. isWhiteSpace c) \<and> (\<forall>c \<in> set ws2. isWhiteSpace c)"
proof (intro exI conjI)
  let ?rest = "dropWhile isWhiteSpace s"
  let ?rear = "rev (takeWhile isWhiteSpace (rev ?rest))"
  have "trim s @ ?rear
      = rev (takeWhile isWhiteSpace (rev ?rest) @ dropWhile isWhiteSpace (rev ?rest))"
    unfolding trim_def by (rule rev_append [symmetric])
  also have "\<dots> = ?rest"
    unfolding takeWhile_dropWhile_id by (rule rev_rev_ident)
  finally have "takeWhile isWhiteSpace s @ trim s @ ?rear = takeWhile isWhiteSpace s @ ?rest"
    by (rule arg_cong [where f = "(@) (takeWhile isWhiteSpace s)"])
  also have "\<dots> = s"
    by (rule takeWhile_dropWhile_id)
  finally show "s = takeWhile isWhiteSpace s @ trim s @ ?rear"
    by (rule sym)
  show "\<forall>c \<in> set (takeWhile isWhiteSpace s). isWhiteSpace c"
    by (auto dest: set_takeWhileD)
  show "\<forall>c \<in> set ?rear. isWhiteSpace c"
    by (auto dest: set_takeWhileD)
qed

lemma dropWhile_all: "\<forall>c \<in> set ws. P c \<Longrightarrow> dropWhile P (ws @ s) = dropWhile P s"
  by (induction ws) simp_all

lemma trim_white:
  assumes "\<forall>c \<in> set s. isWhiteSpace c"
  shows "trim s = []"
proof -
  from assms have d: "dropWhile isWhiteSpace s = []"
    by (simp add: dropWhile_eq_Nil_conv)
  show ?thesis
    unfolding trim_def d by simp
qed

lemma trim_white_after:
  assumes "\<forall>c \<in> set ws. isWhiteSpace c"
  shows "trim (s @ ws) = trim s"
proof (cases "\<forall>c \<in> set s. isWhiteSpace c")
  case True
  with assms have "trim (s @ ws) = []"
    by (intro trim_white) auto
  with True show ?thesis
    by (simp add: trim_white)
next
  case False
  then have d: "dropWhile isWhiteSpace (s @ ws) = dropWhile isWhiteSpace s @ ws"
    by (auto simp add: dropWhile_append1)
  have "trim (s @ ws)
      = rev (dropWhile isWhiteSpace (rev ws @ rev (dropWhile isWhiteSpace s)))"
    unfolding trim_def d rev_append ..
  also have "\<dots> = rev (dropWhile isWhiteSpace (rev (dropWhile isWhiteSpace s)))"
    using assms by (simp only: dropWhile_all set_rev)
  finally show ?thesis
    unfolding trim_def .
qed

lemma trim_white_before:
  assumes "\<forall>c \<in> set ws. isWhiteSpace c"
  shows "trim (ws @ s) = trim s"
  using assms by (simp add: trim_def dropWhile_all)

lemma clean_trim: "clean (trim s) = clean s"
proof -
  obtain ws1 ws2 where s: "s = ws1 @ trim s @ ws2"
    and w1: "\<forall>c \<in> set ws1. isWhiteSpace c" and w2: "\<forall>c \<in> set ws2. isWhiteSpace c"
    using trim_decompose by blast
  have "strip_markers s = strip_markers (ws1 @ trim s @ ws2)"
    using s by simp
  also have "\<dots> = ws1 @ strip_markers (trim s) @ ws2"
    using w1 w2 by (simp add: strip_markers_white strip_markers_append_white)
  finally have "clean s = trim (ws1 @ (strip_markers (trim s) @ ws2))"
    by (simp add: clean_def)
  also have "\<dots> = trim (strip_markers (trim s) @ ws2)"
    using w1 by (rule trim_white_before)
  also have "\<dots> = trim (strip_markers (trim s))"
    using w2 by (rule trim_white_after)
  finally show ?thesis
    by (simp add: clean_def)
qed

lemma clean_Nil: "clean [] = []"
  by (simp add: clean_def trim_def)

lemma primary_clean: "clean (or_else (content_trim resp) []) = clean (output_text resp)"
proof (cases resp)
  case None
  then show ?thesis
    by (simp add: content_trim_def or_else_def output_text_def)
next
  case (Some r)
  show ?thesis
  proof (cases "resp_content r")
    case None
    with Some show ?thesis
      by (simp add: content_trim_def or_else_def output_text_def)
  next
    case (Some c)
    with \<open>resp = Some r\<close> show ?thesis
      by (simp add: content_trim_def or_else_def output_text_def clean_trim clean_Nil)
  qed
qed

section \<open>Generation, validation and retry\<close>

lemma queryInsights_generate:
  assumes "initRAG svc = None"
    and "getEmbedding svc userQuery = Inr queryVec"
    and "collection_query svc idx [queryVec] 3 = Inr results"
    and "retrieve rt results \<noteq> []"
  shows "queryInsights rt svc idx userQuery = generate svc (context_of rt (retrieve rt results))"
  using assms by (simp add: queryInsights_def context_of_def Let_def)

lemma or_else_sentinel:
  "or_else (Some s) d = (if s = [] then d else s)"
  by (simp add: or_else_def)

lemma generate_primary_fault:
  "invoke svc (user_message (prompt_of ctx)) = Inl err \<Longrightarrow>
     generate svc ctx = (Inl err, [user_message (prompt_of ctx)])"
  by (simp add: generate_def Let_def)

lemma generate_no_retry:
  "invoke svc (user_message (prompt_of ctx)) = Inr resp \<Longrightarrow>
   \<not> degenerate (clean (output_text resp)) \<Longrightarrow>
     generate svc ctx =
       (Inr (clean (output_text resp)), [user_message (prompt_of ctx)])"
  by (auto simp add: generate_def Let_def degenerate_def or_else_sentinel
        primary_clean [symmetric])

lemma generate_retry_fault:
  "invoke svc (user_message (prompt_of ctx)) = Inr resp \<Longrightarrow>
   degenerate (clean (output_text resp)) \<Longrightarrow>
   invoke svc (user_message (simplePrompt_of ctx)) = Inl err \<Longrightarrow>
     generate svc ctx =
       (Inl err, [user_message (prompt_of ctx), user_message (simplePrompt_of ctx)])"
  by (auto simp add: generate_def Let_def degenerate_def primary_clean [symmetric])

lemma generate_retry:
  "invoke svc (user_message (prompt_of ctx)) = Inr resp \<Longrightarrow>
   degenerate (clean (output_text resp)) \<Longrightarrow>
   invoke svc (user_message (simplePrompt_of ctx)) = Inr retryResp \<Longrightarrow>
     generate svc ctx =
       (Inr (let chosen = or_else (content_trim retryResp) (clean (output_text resp));
                 final = clean chosen
             in if final = [] then no_meaningful_insights else final),
        [user_message (prompt_of ctx), user_message (simplePrompt_of ctx)])"
  by (auto simp add: generate_def Let_def degenerate_def or_else_sentinel
        primary_clean [symmetric])

lemma generate_calls_le_2: "length (snd (generate svc ctx)) \<le> 2"
  by (simp add: generate_def Let_def split: sum.splits)

lemma queryInsights_calls_le_2: "length (snd (queryInsights rt svc idx userQuery)) \<le> 2"
  by (simp add: queryInsights_def Let_def generate_calls_le_2 split: sum.splits option.splits)

lemma length_ascii [simp]: "length (ascii s) = length s"
  by (simp add: ascii_def)

lemma simplePrompt_shorter: "length (simplePrompt_of ctx) < length (prompt_of ctx)"
  by (simp add: simplePrompt_of_def prompt_of_def nl_def)


lemma query_services_simps:
  "initRAG (query_services hs m) = None"
  "getEmbedding (query_services hs m) q = Inr (Some [length q])"
  "collection_query (query_services hs m) idx vecs n = Inr (Some [hs])"
  "invoke (query_services hs m) = m"
  by (simp_all add: query_services_def getEmbedding_def)

lemma model_answers_primary: "model_answers a b (user_message (prompt_of ctx)) = a"
  by (simp add: model_answers_def user_message_def prompt_of_def nl_def)

lemma model_answers_retry: "model_answers a b (user_message (simplePrompt_of ctx)) = b"
  by (simp add: model_answers_def user_message_def simplePrompt_of_def nl_def ascii_def)

lemma coffee_not_empty: "retrieve node_en_US_UTC (Some [coffee_hits]) \<noteq> []"
  by (simp add: retrieve_def push_hit_def coffee_hits_def hit_def)

lemmas cleaning_defs =
  says_def content_trim_def or_else_def output_text_def clean_def trim_def isWhiteSpace_def
  degenerate_def ascii_def

text \<open>
  Claim C6, as the code has it. When the primary output, stripped of the markers and
  trimmed, is empty or shorter than 10 code units, exactly one retry is made, with the
  simplified prompt: a one-line instruction followed by the context block, shorter
  than the primary prompt. The retry's trimmed content is taken when it
  is not empty (before its markers are stripped), the cleaned primary output otherwise;
  what is taken is stripped and trimmed once more, and when that leaves nothing the
  result is the "no meaningful insights" sentinel. No run makes more than two calls to
  the language model.
\<close>

theorem C6_degenerate_output_retried_once:
  assumes "initRAG svc = None"
    and "getEmbedding svc userQuery = Inr queryVec"
    and "collection_query svc idx [queryVec] 3 = Inr results"
    and "retrieve rt results \<noteq> []"
    and "invoke svc (user_message (prompt_of (context_of rt (retrieve rt results)))) = Inr resp"
    and "degenerate (clean (output_text resp))"
    and "invoke svc (user_message (simplePrompt_of (context_of rt (retrieve rt results))))
           = Inr retryResp"
  shows "queryInsights rt svc idx userQuery =
           (Inr (let chosen = or_else (content_trim retryResp) (clean (output_text resp));
                     final = clean chosen
                 in if final = [] then no_meaningful_insights else final),
            [user_message (prompt_of (context_of rt (retrieve rt results))),
             user_message (simplePrompt_of (context_of rt (retrieve rt results)))])
       \<and> simplePrompt_of (context_of rt (retrieve rt results))
           = ascii ''Write a short, friendly summary of these expenses:'' @ nl
               @ context_of rt (retrieve rt results)
       \<and> length (simplePrompt_of (context_of rt (retrieve rt results)))
           < length (prompt_of (context_of rt (retrieve rt results)))
       \<and> length (snd (queryInsights rt' svc' idx' userQuery')) \<le> 2"
proof (intro conjI)
  have "queryInsights rt svc idx userQuery = generate svc (context_of rt (retrieve rt results))"
    using assms(1-4) by (rule queryInsights_generate)
  then show "queryInsights rt svc idx userQuery =
           (Inr (let chosen = or_else (content_trim retryResp) (clean (output_text resp));
                     final = clean chosen
                 in if final = [] then no_meaningful_insights else final),
            [user_message (prompt_of (context_of rt (retrieve rt results))),
             user_message (simplePrompt_of (context_of rt (retrieve rt results)))])"
    using assms(5-7) by (simp only: generate_retry)
  show "simplePrompt_of (context_of rt (retrieve rt results))
           = ascii ''Write a short, friendly summary of these expenses:'' @ nl
               @ context_of rt (retrieve rt results)"
    by (simp add: simplePrompt_of_def)
  show "length (simplePrompt_of (context_of rt (retrieve rt results)))
           < length (prompt_of (context_of rt (retrieve rt results)))"
    by (rule simplePrompt_shorter)
  show "length (snd (queryInsights rt' svc' idx' userQuery')) \<le> 2"
    by (rule queryInsights_calls_le_2)
qed

text \<open>
  The primary answer is a blank; the retry's answer loses its marker and is returned.
\<close>

theorem C6_degenerate_output_retried_once_witness:
  "queryInsights node_en_US_UTC
     (query_services coffee_hits (model_answers (says '' '') (says ''You spent $9.50 on coffee, [OUT] well done.'')))
     () (ascii ''coffee'')
   = (Inr (ascii ''You spent $9.50 on coffee,  well done.''),
      [user_message (prompt_of (context_of node_en_US_UTC (retrieve node_en_US_UTC (Some [coffee_hits])))),
       user_message (simplePrompt_of (context_of node_en_US_UTC (retrieve node_en_US_UTC (Some [coffee_hits]))))])"
proof -
  let ?svc = "query_services coffee_hits
      (model_answers (says '' '') (says ''You spent $9.50 on coffee, [OUT] well done.''))
      :: (nat list, unit) services"
  have deg: "degenerate (clean (output_text (Some \<lparr>resp_content = Some (ascii '' '')\<rparr>)))"
    by (simp add: cleaning_defs)
  have primary: "invoke ?svc (user_message (prompt_of
        (context_of node_en_US_UTC (retrieve node_en_US_UTC (Some [coffee_hits])))))
      = Inr (Some \<lparr>resp_content = Some (ascii '' '')\<rparr>)"
    by (simp add: query_services_simps model_answers_primary says_def)
  have retry: "invoke ?svc (user_message (simplePrompt_of
        (context_of node_en_US_UTC (retrieve node_en_US_UTC (Some [coffee_hits])))))
      = Inr (Some \<lparr>resp_content = Some (ascii ''You spent $9.50 on coffee, [OUT] well done.'')\<rparr>)"
    by (simp add: query_services_simps model_answers_retry says_def)
  show ?thesis
    using C6_degenerate_output_retried_once
      [of ?svc "ascii ''coffee''" "Some [6]" "()" "Some [coffee_hits]" node_en_US_UTC,
       OF _ _ _ coffee_not_empty primary deg retry, THEN conjunct1]
    by (simp add: query_services_simps)
       (simp add: cleaning_defs no_meaningful_insights_def)
qed

text \<open>
  The primary answer "Hi there" is too short and the retry answers with a marker only.
  By the wording of the specification the retry's result is empty after stripping and
  the original is kept; the code takes the retry's content, strips it to nothing and
  returns the sentinel. And when the primary answer cleans to the three code units
  of a marker, put together by the first stripping, and the retry answers with a
  blank, the original is not kept either: it is stripped once more, to nothing.
\<close>

theorem C6_retry_of_markers_counterexample:
  "fst (queryInsights node_en_US_UTC
          (query_services coffee_hits (model_answers (says ''Hi there'') (says ''<s>'')))
          () (ascii ''coffee''))
     = Inr no_meaningful_insights
   \<and> clean (ascii ''Hi there'') = ascii ''Hi there''
   \<and> spec_retry_result (ascii ''Hi there'') (ascii ''<s>'') = ascii ''Hi there''
   \<and> fst (queryInsights node_en_US_UTC
          (query_services coffee_hits (model_answers (says ''<<s>s>'') (says '' '')))
          () (ascii ''coffee''))
     = Inr no_meaningful_insights
   \<and> clean (ascii ''<<s>s>'') = ascii ''<s>''
   \<and> spec_retry_result (ascii ''<s>'') (ascii '' '') = ascii ''<s>''
   \<and> no_meaningful_insights \<noteq> ascii ''Hi there''
   \<and> no_meaningful_insights \<noteq> ascii ''<s>''"
proof (intro conjI)
  let ?ctx = "context_of node_en_US_UTC (retrieve node_en_US_UTC (Some [coffee_hits]))"
  let ?svc = "query_services coffee_hits (model_answers (says ''Hi there'') (says ''<s>''))
      :: (nat list, unit) services"
  have "queryInsights node_en_US_UTC ?svc () (ascii ''coffee'') = generate ?svc ?ctx"
    by (rule queryInsights_generate [where queryVec = "Some [6]"])
       (simp_all add: query_services_simps coffee_not_empty)
  also have "fst \<dots> = Inr no_meaningful_insights"
    by (subst generate_retry [where resp = "Some \<lparr>resp_content = Some (ascii ''Hi there'')\<rparr>"
          and retryResp = "Some \<lparr>resp_content = Some (ascii ''<s>'')\<rparr>"])
       (simp_all add: query_services_simps model_answers_primary model_answers_retry cleaning_defs)
  finally show "fst (queryInsights node_en_US_UTC ?svc () (ascii ''coffee''))
     = Inr no_meaningful_insights" .
  let ?svc2 = "query_services coffee_hits (model_answers (says ''<<s>s>'') (says '' ''))
      :: (nat list, unit) services"
  have "queryInsights node_en_US_UTC ?svc2 () (ascii ''coffee'') = generate ?svc2 ?ctx"
    by (rule queryInsights_generate [where queryVec = "Some [6]"])
       (simp_all add: query_services_simps coffee_not_empty)
  also have "fst \<dots> = Inr no_meaningful_insights"
    by (subst generate_retry [where resp = "Some \<lparr>resp_content = Some (ascii ''<<s>s>'')\<rparr>"
          and retryResp = "Some \<lparr>resp_content = Some (ascii '' '')\<rparr>"])
       (simp_all add: query_services_simps model_answers_primary model_answers_retry cleaning_defs)
  finally show "fst (queryInsights node_en_US_UTC ?svc2 () (ascii ''coffee''))
     = Inr no_meaningful_insights" .
  show "clean (ascii ''Hi there'') = ascii ''Hi there''"
    by (simp add: cleaning_defs)
  show "spec_retry_result (ascii ''Hi there'') (ascii ''<s>'') = ascii ''Hi there''"
    by (simp add: spec_retry_result_def cleaning_defs)
  show "clean (ascii ''<<s>s>'') = ascii ''<s>''"
    by (simp add: cleaning_defs)
  show "spec_retry_result (ascii ''<s>'') (ascii '' '') = ascii ''<s>''"
    by (simp add: spec_retry_result_def cleaning_defs)
  show "no_meaningful_insights \<noteq> ascii ''Hi there''"
    by (simp add: no_meaningful_insights_def ascii_def)
  show "no_meaningful_insights \<noteq> ascii ''<s>''"
    by (simp add: no_meaningful_insights_def ascii_def)
qed


section \<open>Generation faults\<close>

lemma generate_fault_cases:
  "fst (generate svc ctx) = Inl err \<Longrightarrow>
     invoke svc (user_message (prompt_of ctx)) = Inl err
     \<or> (\<exists>resp. invoke svc (user_message (prompt_of ctx)) = Inr resp
            \<and> degenerate (clean (output_text resp))
            \<and> invoke svc (user_message (simplePrompt_of ctx)) = Inl err)"
  by (auto simp add: generate_def Let_def degenerate_def primary_clean [symmetric]
        split: sum.splits if_splits)

lemma generate_retried_iff:
  "length (snd (generate svc ctx)) = 2 \<longleftrightarrow>
     (\<exists>resp. invoke svc (user_message (prompt_of ctx)) = Inr resp
        \<and> degenerate (clean (output_text resp)))"
  by (auto simp add: generate_def Let_def degenerate_def primary_clean [symmetric]
        split: sum.splits if_splits)

text \<open>
  Claim C9, as the code has it. Once generation is reached, a fault of the primary
  call is surfaced to the caller at once, after that one call and without a retry;
  a fault of the retry call, which is made only after a successful primary call with
  degenerate output, is surfaced as well; and a generation fault that is surfaced is
  one of these two.
\<close>

theorem C9_generation_faults_propagate:
  assumes "initRAG svc = None"
    and "getEmbedding svc userQuery = Inr queryVec"
    and "collection_query svc idx [queryVec] 3 = Inr results"
    and "retrieve rt results \<noteq> []"
    and "ctx = context_of rt (retrieve rt results)"
  shows "(invoke svc (user_message (prompt_of ctx)) = Inl err \<longrightarrow>
            queryInsights rt svc idx userQuery = (Inl err, [user_message (prompt_of ctx)]))
       \<and> (invoke svc (user_message (prompt_of ctx)) = Inr resp
            \<and> degenerate (clean (output_text resp))
            \<and> invoke svc (user_message (simplePrompt_of ctx)) = Inl err \<longrightarrow>
            queryInsights rt svc idx userQuery
              = (Inl err, [user_message (prompt_of ctx), user_message (simplePrompt_of ctx)]))
       \<and> (fst (queryInsights rt svc idx userQuery) = Inl err \<longrightarrow>
            invoke svc (user_message (prompt_of ctx)) = Inl err
            \<or> (\<exists>resp. invoke svc (user_message (prompt_of ctx)) = Inr resp
                   \<and> degenerate (clean (output_text resp))
                   \<and> invoke svc (user_message (simplePrompt_of ctx)) = Inl err))
       \<and> (length (snd (queryInsights rt svc idx userQuery)) = 2 \<longleftrightarrow>
            (\<exists>resp. invoke svc (user_message (prompt_of ctx)) = Inr resp
               \<and> degenerate (clean (output_text resp))))"
proof -
  have gen: "queryInsights rt svc idx userQuery = generate svc ctx"
    using assms by (simp add: queryInsights_generate)
  show ?thesis
    unfolding gen
    by (intro conjI impI)
       (simp_all add: generate_primary_fault generate_retry_fault generate_fault_cases
          generate_retried_iff)
qed

text \<open>
  The primary answer is a marker only, and the retry call throws: two calls, and the
  fault of the second is the result.
\<close>

theorem C9_generation_faults_propagate_witness:
  "queryInsights node_en_US_UTC
     (query_services coffee_hits
        (model_answers (says ''<s>'') (Inl (Error (ascii ''provider fault'')))))
     () (ascii ''coffee'')
   = (Inl (Error (ascii ''provider fault'')),
      [user_message (prompt_of (context_of node_en_US_UTC (retrieve node_en_US_UTC (Some [coffee_hits])))),
       user_message (simplePrompt_of (context_of node_en_US_UTC (retrieve node_en_US_UTC (Some [coffee_hits]))))])"
proof -
  let ?svc = "query_services coffee_hits
      (model_answers (says ''<s>'') (Inl (Error (ascii ''provider fault''))))
      :: (nat list, unit) services"
  let ?ctx = "context_of node_en_US_UTC (retrieve node_en_US_UTC (Some [coffee_hits]))"
  have deg: "degenerate (clean (output_text (Some \<lparr>resp_content = Some (ascii ''<s>'')\<rparr>)))"
    by (simp add: cleaning_defs)
  have primary: "invoke ?svc (user_message (prompt_of ?ctx))
      = Inr (Some \<lparr>resp_content = Some (ascii ''<s>'')\<rparr>)"
    by (simp add: query_services_simps model_answers_primary says_def)
  have retry: "invoke ?svc (user_message (simplePrompt_of ?ctx))
      = Inl (Error (ascii ''provider fault''))"
    by (simp add: query_services_simps model_answers_retry)
  have reach: "initRAG ?svc = None"
    "getEmbedding ?svc (ascii ''coffee'') = Inr (Some [6])"
    "collection_query ?svc () [Some [6]] 3 = Inr (Some [coffee_hits])"
    by (simp_all add: query_services_simps)
  show ?thesis
    using C9_generation_faults_propagate
      [OF reach coffee_not_empty refl,
       of "Error (ascii ''provider fault'')" "Some \<lparr>resp_content = Some (ascii ''<s>'')\<rparr>"]
      primary deg retry
    by simp
qed

text \<open>
  A language model whose every call throws: the fault of the primary call is the
  result, after one call, with no retry attempted.
\<close>

theorem C9_primary_fault_counterexample:
  "fst (queryInsights node_en_US_UTC
          (query_services coffee_hits (\<lambda>msgs. Inl (Error (ascii ''provider fault''))))
          () (ascii ''coffee''))
     = Inl (Error (ascii ''provider fault''))
   \<and> length (snd (queryInsights node_en_US_UTC
          (query_services coffee_hits (\<lambda>msgs. Inl (Error (ascii ''provider fault''))))
          () (ascii ''coffee''))) = 1"
proof -
  let ?svc = "query_services coffee_hits (\<lambda>msgs. Inl (Error (ascii ''provider fault'')))
      :: (nat list, unit) services"
  have "queryInsights node_en_US_UTC ?svc () (ascii ''coffee'')
      = generate ?svc (context_of node_en_US_UTC (retrieve node_en_US_UTC (Some [coffee_hits])))"
    by (rule queryInsights_generate [where queryVec = "Some [6]"])
       (simp_all add: query_services_simps coffee_not_empty)
  then show ?thesis
    by (simp add: generate_primary_fault query_services_simps)
qed

section \<open>Ingestion: failures are caught, the run goes on\<close>

lemma embed_step_eq:
  "embed_step rt svc (idx, c) r =
     (snd (try_embed rt svc idx r),
      c @ (case fst (try_embed rt svc idx r) of None \<Rightarrow> [] | Some err \<Rightarrow> [failed_line rt r err]))"
  by (cases "try_embed rt svc idx r") (simp add: embed_step_def split: option.splits)

lemma failure_lines_Nil: "failure_lines rt [] = []"
  by (simp add: failure_lines_def)

lemma failure_lines_Cons:
  "failure_lines rt ((r, res) # os) =
     (case res of None \<Rightarrow> [] | Some err \<Rightarrow> [failed_line rt r err]) @ failure_lines rt os"
  by (cases res) (simp_all add: failure_lines_def)

lemma loop_console:
  "snd (foldl (embed_step rt svc) (idx, c) rows) = c @ failure_lines rt (outcomes rt svc idx rows)"
  by (induction rows arbitrary: idx c)
     (simp_all add: embed_step_eq failure_lines_Nil failure_lines_Cons)

lemma map_fst_outcomes: "map fst (outcomes rt svc idx rows) = rows"
  by (induction rows arbitrary: idx) simp_all










lemma buildEmbeddings_run:
  assumes "initRAG svc = None" and "pool_query svc = Inr rows"
  shows "buildEmbeddings rt svc idx =
           (Inr JUndefined,
            fst (foldl (embed_step rt svc) (idx, [found_line (length rows)]) rows),
            [found_line (length rows)] @ failure_lines rt (outcomes rt svc idx rows)
              @ [stored_line])"
  using assms by (simp add: buildEmbeddings_def Let_def loop_console)


lemma ingest_services_simps:
  "initRAG (ingest_services rows failing) = None"
  "pool_query (ingest_services rows failing) = Inr rows"
  "collection_add (ingest_services rows failing) = store_request"
  by (simp_all add: ingest_services_def)






lemma print_small [simp]:
  "print_number (Num 1) = ascii ''1''" "print_number (Num 2) = ascii ''2''"
  "print_number (Num 3) = ascii ''3''" "print_number (Num 4) = ascii ''4''"
  "print_number (Num 5) = ascii ''5''" "print_number (Num 12) = ascii ''12''"
  "print_number (Num 18) = ascii ''18''" "print_number (Num 30) = ascii ''30''"
  by (simp_all add: print_number_def ascii_def)

lemma five_descriptions:
  "map (description node_en_US_UTC) five_rows =
     [ascii ''Expense: Coffee, Amount: $4, Date: 2024-01-05'',
      ascii ''Expense: Lunch, Amount: $12, Date: 2024-01-09'',
      ascii ''Expense: Taxi, Amount: $18, Date: 2024-01-17'',
      ascii ''Expense: Books, Amount: $30, Date: 2024-02-03'',
      ascii ''Expense: Coffee, Amount: $5, Date: 2024-02-11'']"
  by (simp add: five_rows_def expense_row_def description_def node_en_US_UTC_def)
     (simp add: ascii_def)


lemma try_embed_sample:
  "try_embed node_en_US_UTC (ingest_services rows failing) idx (expense_row i n a d) =
     (if description node_en_US_UTC (expense_row i n a d) \<in> set failing
      then (Some (Error (ascii ''embedding failed'')), idx)
      else (None,
            AList.update (print_number (Num i))
              (Some [length (description node_en_US_UTC (expense_row i n a d))],
               \<lparr>md_text = JString (description node_en_US_UTC (expense_row i n a d)),
                md_note = JString (ascii n), md_amount = JNumber (Num a),
                md_date = JString (ascii d)\<rparr>) idx))"
  by (simp add: try_embed_def getEmbedding_def ingest_services_def toString_call_def
        store_request_def expense_row_def node_en_US_UTC_def Let_def)

lemma five_outcomes:
  "map snd (outcomes node_en_US_UTC five_services [] five_rows) =
     [None, None, Some (Error (ascii ''embedding failed'')), None, None]"
  using five_descriptions
  by (simp add: five_services_def five_rows_def try_embed_sample) (simp add: ascii_def)


lemma five_outcomes_rows:
  "outcomes node_en_US_UTC five_services [] five_rows =
     zip five_rows [None, None, Some (Error (ascii ''embedding failed'')), None, None]"
proof -
  have "outcomes node_en_US_UTC five_services [] five_rows =
      zip (map fst (outcomes node_en_US_UTC five_services [] five_rows))
          (map snd (outcomes node_en_US_UTC five_services [] five_rows))"
    by (simp add: zip_map_fst_snd)
  then show ?thesis
    by (simp only: map_fst_outcomes five_outcomes)
qed

lemma five_services_simps:
  "initRAG five_services = None" "pool_query five_services = Inr five_rows"
  by (simp_all add: five_services_def ingest_services_simps)

lemma length_five_rows: "length five_rows = 5"
  by (simp add: five_rows_def)

lemma five_console:
  "[found_line (length five_rows)]
     @ failure_lines node_en_US_UTC (outcomes node_en_US_UTC five_services [] five_rows)
     @ [stored_line]
   = [found_line 5,
      failed_line node_en_US_UTC (five_rows ! 2) (Error (ascii ''embedding failed'')),
      stored_line]"
  by (simp add: five_outcomes_rows length_five_rows) (simp add: five_rows_def failure_lines_def)

lemma five_index:
  "map fst (fst (foldl (embed_step node_en_US_UTC five_services) ([], c) five_rows))
     = [ascii ''1'', ascii ''2'', ascii ''4'', ascii ''5'']"
  using five_descriptions
  by (simp add: five_services_def five_rows_def embed_step_eq try_embed_sample)
     (simp add: ascii_def)

lemma failed_line_3:
  "failed_line node_en_US_UTC (five_rows ! 2) (Error (ascii ''embedding failed''))
     = console_error
         [[0x26A0, 0xFE0F] @ ascii '' Failed to embed expense ID 3:'',
          ascii ''embedding failed'']"
  by (simp add: failed_line_def five_rows_def expense_row_def node_en_US_UTC_def)
     (simp add: ascii_def)



lemma five_run:
  "fst (buildEmbeddings node_en_US_UTC five_services []) = Inr JUndefined
   \<and> map fst (fst (snd (buildEmbeddings node_en_US_UTC five_services [])))
       = [ascii ''1'', ascii ''2'', ascii ''4'', ascii ''5'']
   \<and> snd (snd (buildEmbeddings node_en_US_UTC five_services []))
       = [found_line 5,
          console_error
            [[0x26A0, 0xFE0F] @ ascii '' Failed to embed expense ID 3:'',
             ascii ''embedding failed''],
          stored_line]"
  by (simp only: buildEmbeddings_run [OF five_services_simps] fst_conv snd_conv five_index
        five_console failed_line_3 simp_thms)

section \<open>Ingestion returns no counts\<close>

text \<open>
  Claim C7, as the code has it. \<open>buildEmbeddings\<close> returns no value: when
  initialisation and the read of the rows succeed its result is \<^verbatim>\<open>undefined\<close>, and it
  never returns anything else. For the run over five rows where the embedding of the
  third throws and every other step succeeds, the result is \<^verbatim>\<open>undefined\<close>; the four
  other rows are in the index, under the ids 1, 2, 4 and 5, and the failure shows as
  the one error line of the console, with the id 3.
\<close>

theorem C7_ingestion_returns_undefined:
  "(initRAG svc = None \<and> pool_query svc = Inr rows \<longrightarrow>
      fst (buildEmbeddings rt svc idx) = Inr JUndefined)
   \<and> (fst (buildEmbeddings rt svc idx) = Inr v \<longrightarrow> v = JUndefined)
   \<and> fst (buildEmbeddings node_en_US_UTC five_services []) = Inr JUndefined
   \<and> map fst (fst (snd (buildEmbeddings node_en_US_UTC five_services [])))
       = [ascii ''1'', ascii ''2'', ascii ''4'', ascii ''5'']
   \<and> snd (snd (buildEmbeddings node_en_US_UTC five_services []))
       = [found_line 5,
          console_error
            [[0x26A0, 0xFE0F] @ ascii '' Failed to embed expense ID 3:'',
             ascii ''embedding failed''],
          stored_line]"
proof (intro conjI impI)
  assume "initRAG svc = None \<and> pool_query svc = Inr rows"
  then show "fst (buildEmbeddings rt svc idx) = Inr JUndefined"
    by (simp add: buildEmbeddings_run)
next
  assume "fst (buildEmbeddings rt svc idx) = Inr v"
  then show "v = JUndefined"
    by (auto simp add: buildEmbeddings_def Let_def split: option.splits sum.splits)
qed (simp_all only: five_run)

text \<open>A run over one row that is embedded and stored.\<close>

theorem C7_ingestion_returns_undefined_witness:
  "fst (buildEmbeddings node_en_US_UTC
          (ingest_services [expense_row 1 ''Coffee'' 4 ''2024-01-05''] []) [])
     = Inr JUndefined"
  using C7_ingestion_returns_undefined
    [of "ingest_services [expense_row 1 ''Coffee'' 4 ''2024-01-05''] []"
        "[expense_row 1 ''Coffee'' 4 ''2024-01-05'']" node_en_US_UTC "[]" JUndefined]
  by (simp add: ingest_services_simps)

text \<open>
  The run over the five rows does not return the object \<^verbatim>\<open>{embedded: 4, failed: 1}\<close>.
\<close>

theorem C7_counts_counterexample:
  "fst (buildEmbeddings node_en_US_UTC five_services []) = Inr JUndefined
   \<and> fst (buildEmbeddings node_en_US_UTC five_services [])
       \<noteq> Inr (JObject [(ascii ''embedded'', JNumber (Num 4)), (ascii ''failed'', JNumber (Num 1))])"
  by (simp add: five_run)

end
